theory Spec2Isabelle
  imports Main
begin

section \<open>TaskManager-Back: dates, store and request handlers\<close>

text \<open>
  A shallow embedding of \<^verbatim>\<open>src/main.py\<close> and \<^verbatim>\<open>src/models.py\<close>: the tables
  of the SQLAlchemy models are lists of rows, a request handler is a function from the
  store (and the request) to either an HTTP error or its result together with the store
  after the commit.
\<close>

subsection \<open>HTTP errors\<close>

text \<open>
  \<^verbatim>\<open>handle_exception\<close> (\<^verbatim>\<open>src/utils.py\<close>) turns an \<^verbatim>\<open>AppException\<close> into an
  \<^verbatim>\<open>HTTPException\<close> with the exception's status code and every other exception
  (\<^verbatim>\<open>KeyError\<close>, \<^verbatim>\<open>TypeError\<close>, \<^verbatim>\<open>AttributeError\<close>, a database error) into status
  500. The constructors carry the names of the status constants the handlers use.
\<close>

datatype http_error =
    HTTP_400_BAD_REQUEST
  | HTTP_403_FORBIDDEN
  | HTTP_404_NOT_FOUND
  | HTTP_500_INTERNAL_SERVER_ERROR

subsection \<open>Python's datetime (library model)\<close>

text \<open>
  \<^verbatim>\<open>datetime\<close> is Python's standard library, not code of the repository. Its values are
  modelled by their fields; \<open>tzinfo\<close> is the UTC offset in microseconds of an aware
  datetime and \<open>None\<close> for a naive one.
\<close>

record datetime =
  year :: nat
  month :: nat
  day :: nat
  hour :: nat
  minute :: nat
  second :: nat
  microsecond :: nat
  tzinfo :: "int option"

definition is_leap :: "nat \<Rightarrow> bool" where
  "is_leap y = (y mod 4 = 0 \<and> (y mod 100 \<noteq> 0 \<or> y mod 400 = 0))"

definition days_in_month :: "nat \<Rightarrow> nat \<Rightarrow> nat" where
  "days_in_month y m =
     (if m = 2 then (if is_leap y then 29 else 28)
      else if m = 4 \<or> m = 6 \<or> m = 9 \<or> m = 11 then 30 else 31)"

text \<open>The checks of the \<^verbatim>\<open>datetime\<close> constructor, which raises \<^verbatim>\<open>ValueError\<close>
  when one fails.\<close>

definition valid_datetime :: "datetime \<Rightarrow> bool" where
  "valid_datetime d =
     (1 \<le> year d \<and> year d \<le> 9999 \<and> 1 \<le> month d \<and> month d \<le> 12 \<and>
      1 \<le> day d \<and> day d \<le> days_in_month (year d) (month d) \<and>
      hour d < 24 \<and> minute d < 60 \<and> second d < 60 \<and> microsecond d < 1000000 \<and>
      (case tzinfo d of None \<Rightarrow> True
       | Some off \<Rightarrow> - 86400000000 < off \<and> off < 86400000000))"

definition new_datetime ::
  "nat \<Rightarrow> nat \<Rightarrow> nat \<Rightarrow> nat \<Rightarrow> nat \<Rightarrow> nat \<Rightarrow> nat \<Rightarrow> int option \<Rightarrow> datetime option" where
  "new_datetime y m d hh mm ss us tz =
     (let r = \<lparr>year = y, month = m, day = d, hour = hh, minute = mm, second = ss,
                microsecond = us, tzinfo = tz\<rparr>
      in if valid_datetime r then Some r else None)"

text \<open>Comparison. Two naive datetimes compare by their fields, two aware ones by
  their instants; comparing a naive with an aware one raises \<^verbatim>\<open>TypeError\<close>
  (\<open>None\<close>).\<close>

definition days_before_year :: "nat \<Rightarrow> nat" where
  "days_before_year y = (y - 1) * 365 + (y - 1) div 4 - (y - 1) div 100 + (y - 1) div 400"

definition days_before_month :: "nat \<Rightarrow> nat \<Rightarrow> nat" where
  "days_before_month y m =
     (if 1 \<le> m \<and> m \<le> 12
      then [0, 31, 59, 90, 120, 151, 181, 212, 243, 273, 304, 334] ! (m - 1) +
           (if 2 < m \<and> is_leap y then 1 else 0)
      else 0)"

definition local_microseconds :: "datetime \<Rightarrow> int" where
  "local_microseconds d =
     ((((int (days_before_year (year d) + days_before_month (year d) (month d) + day d) * 24
         + int (hour d)) * 60 + int (minute d)) * 60 + int (second d)) * 1000000
      + int (microsecond d))"

definition datetime_lt :: "datetime \<Rightarrow> datetime \<Rightarrow> bool option" where
  "datetime_lt a b =
     (case (tzinfo a, tzinfo b) of
        (None, None) \<Rightarrow> Some (local_microseconds a < local_microseconds b)
      | (Some oa, Some ob) \<Rightarrow> Some (local_microseconds a - oa < local_microseconds b - ob)
      | _ \<Rightarrow> None)"

subsubsection \<open>Decimal digits\<close>

definition digit_val :: "char \<Rightarrow> nat option" where
  "digit_val c = map_of (zip ''0123456789'' [0, 1, 2, 3, 4, 5, 6, 7, 8, 9]) c"

definition digit_char :: "nat \<Rightarrow> char" where
  "digit_char n = ''0123456789'' ! (n mod 10)"

text \<open>Exactly \<open>n\<close> decimal digits at the head of a string: their value and the rest.\<close>

fun parse_digits :: "nat \<Rightarrow> nat \<Rightarrow> string \<Rightarrow> (nat \<times> string) option" where
  "parse_digits 0 acc s = Some (acc, s)"
| "parse_digits (Suc n) acc [] = None"
| "parse_digits (Suc n) acc (c # s) =
     (case digit_val c of None \<Rightarrow> None
      | Some v \<Rightarrow> parse_digits n (10 * acc + v) s)"

text \<open>The decimal numeral of a number, and \<^verbatim>\<open>"%0kd" % n\<close>: the numeral padded with
  zeros to at least \<open>k\<close> characters.\<close>

fun decimal :: "nat \<Rightarrow> string" where
  "decimal n = (if n < 10 then [digit_char n] else decimal (n div 10) @ [digit_char (n mod 10)])"

definition zero_pad :: "nat \<Rightarrow> nat \<Rightarrow> string" where
  "zero_pad k n = replicate (k - length (decimal n)) (CHR ''0'') @ decimal n"

declare decimal.simps [simp del]

subsubsection \<open>isoformat\<close>

text \<open>
  \<^verbatim>\<open>datetime.isoformat()\<close>: \<^verbatim>\<open>"%04d-%02d-%02dT%02d:%02d:%02d"\<close>, then
  \<^verbatim>\<open>".%06d"\<close> when the microseconds are not zero, then the UTC offset of an aware
  datetime as \<^verbatim>\<open>+HH:MM[:SS[.ffffff]]\<close>.
\<close>

definition format_time :: "datetime \<Rightarrow> string" where
  "format_time d =
     zero_pad 2 (hour d) @ '':'' @ zero_pad 2 (minute d) @ '':'' @ zero_pad 2 (second d) @
     (if microsecond d \<noteq> 0 then ''.'' @ zero_pad 6 (microsecond d) else [])"

definition format_offset :: "int option \<Rightarrow> string" where
  "format_offset tz =
     (case tz of None \<Rightarrow> []
      | Some off \<Rightarrow>
          (let a = nat \<bar>off\<bar>;
               ss = (a div 1000000) mod 60;
               us = a mod 1000000
           in (if off < 0 then ''-'' else ''+'') @
              zero_pad 2 (a div 3600000000) @ '':'' @ zero_pad 2 ((a div 60000000) mod 60) @
              (if ss \<noteq> 0 \<or> us \<noteq> 0
               then '':'' @ zero_pad 2 ss @ (if us \<noteq> 0 then ''.'' @ zero_pad 6 us else [])
               else [])))"

definition isoformat :: "datetime \<Rightarrow> string" where
  "isoformat d =
     zero_pad 4 (year d) @ ''-'' @ zero_pad 2 (month d) @ ''-'' @ zero_pad 2 (day d) @ ''T'' @
     format_time d @ format_offset (tzinfo d)"

subsubsection \<open>fromisoformat\<close>

text \<open>
  \<^verbatim>\<open>datetime.fromisoformat\<close> with the grammar its documentation gives for Python 3.7
  to 3.10, \<^verbatim>\<open>YYYY-MM-DD[*HH[:MM[:SS[.fff[fff]]]][+HH:MM[:SS[.ffffff]]]]\<close>, where
  \<^verbatim>\<open>*\<close> is any single character. \<open>None\<close> is the \<^verbatim>\<open>ValueError\<close> of a
  string outside the grammar or of a field out of range. (Later versions of Python accept
  more ISO 8601 forms; every string of this grammar they parse alike.)
\<close>

definition parse_fraction :: "string \<Rightarrow> nat option" where
  "parse_fraction s =
     (if length s = 3 then
        (case parse_digits 3 0 s of None \<Rightarrow> None | Some (f, r) \<Rightarrow> Some (f * 1000))
      else if length s = 6 then
        (case parse_digits 6 0 s of None \<Rightarrow> None | Some (f, r) \<Rightarrow> Some f)
      else None)"

definition parse_hh_mm_ss_ff :: "string \<Rightarrow> (nat \<times> nat \<times> nat \<times> nat) option" where
  "parse_hh_mm_ss_ff s =
     (case parse_digits 2 0 s of None \<Rightarrow> None
      | Some (hh, r1) \<Rightarrow>
         (case r1 of [] \<Rightarrow> Some (hh, 0, 0, 0)
          | c1 # r2 \<Rightarrow>
             if c1 \<noteq> CHR '':'' then None
             else (case parse_digits 2 0 r2 of None \<Rightarrow> None
                   | Some (mm, r3) \<Rightarrow>
                      (case r3 of [] \<Rightarrow> Some (hh, mm, 0, 0)
                       | c2 # r4 \<Rightarrow>
                          if c2 \<noteq> CHR '':'' then None
                          else (case parse_digits 2 0 r4 of None \<Rightarrow> None
                                | Some (ss, r5) \<Rightarrow>
                                   (case r5 of [] \<Rightarrow> Some (hh, mm, ss, 0)
                                    | c3 # r6 \<Rightarrow>
                                       if c3 \<noteq> CHR ''.'' then None
                                       else (case parse_fraction r6 of None \<Rightarrow> None
                                             | Some us \<Rightarrow> Some (hh, mm, ss, us))))))))"

definition is_sign :: "char \<Rightarrow> bool" where
  "is_sign c = (c = CHR ''+'' \<or> c = CHR ''-'')"

definition parse_isoformat_time ::
  "string \<Rightarrow> (nat \<times> nat \<times> nat \<times> nat \<times> int option) option" where
  "parse_isoformat_time tstr =
     (case parse_hh_mm_ss_ff (takeWhile (\<lambda>c. \<not> is_sign c) tstr) of None \<Rightarrow> None
      | Some (hh, mm, ss, us) \<Rightarrow>
         (case dropWhile (\<lambda>c. \<not> is_sign c) tstr of
            [] \<Rightarrow> Some (hh, mm, ss, us, None)
          | sign_char # tzstr \<Rightarrow>
             if length tzstr \<noteq> 5 \<and> length tzstr \<noteq> 8 \<and> length tzstr \<noteq> 15 then None
             else (case parse_hh_mm_ss_ff tzstr of None \<Rightarrow> None
                   | Some (th, tm, ts, tus) \<Rightarrow>
                      Some (hh, mm, ss, us,
                            Some ((if sign_char = CHR ''-'' then - 1 else 1) *
                                  int (((th * 60 + tm) * 60 + ts) * 1000000 + tus))))))"

definition fromisoformat :: "string \<Rightarrow> datetime option" where
  "fromisoformat date_string =
     (case parse_digits 4 0 date_string of None \<Rightarrow> None
      | Some (y, r1) \<Rightarrow>
         (case r1 of [] \<Rightarrow> None
          | c1 # r2 \<Rightarrow>
             if c1 \<noteq> CHR ''-'' then None
             else (case parse_digits 2 0 r2 of None \<Rightarrow> None
                   | Some (m, r3) \<Rightarrow>
                      (case r3 of [] \<Rightarrow> None
                       | c2 # r4 \<Rightarrow>
                          if c2 \<noteq> CHR ''-'' then None
                          else (case parse_digits 2 0 r4 of None \<Rightarrow> None
                                | Some (d, r5) \<Rightarrow>
                                   (case r5 of [] \<Rightarrow> new_datetime y m d 0 0 0 0 None
                                    | sep # tstr \<Rightarrow>
                                       (case parse_isoformat_time tstr of None \<Rightarrow> None
                                        | Some (hh, mm, ss, us, tz) \<Rightarrow>
                                            new_datetime y m d hh mm ss us tz)))))))"

subsubsection \<open>strptime\<close>

text \<open>
  \<^verbatim>\<open>datetime.strptime(s, format)\<close> for a format made of the directives \<^verbatim>\<open>%d\<close>,
  \<^verbatim>\<open>%m\<close>, \<^verbatim>\<open>%Y\<close> and punctuation; the program's only format is
  \<^verbatim>\<open>"%d.%m.%Y"\<close>. The library compiles the format to a regular expression, with
  \<^verbatim>\<open>%d\<close> as \<^verbatim>\<open>3[0-1]|[1-2]\d|0[1-9]|[1-9]| [1-9]\<close>, \<^verbatim>\<open>%m\<close> as
  \<^verbatim>\<open>1[0-2]|0[1-9]|[1-9]\<close> and \<^verbatim>\<open>%Y\<close> as \<^verbatim>\<open>\d\d\d\d\<close>, matches the
  string against it, refuses unconverted data after the match, and builds the date from
  the fields (year 1900, month 1, day 1 when a directive is missing). A format with
  another directive, a letter or white space is outside this model.
\<close>

datatype directive = Dir_d | Dir_m | Dir_Y | Lit char

fun format_directives :: "string \<Rightarrow> directive list option" where
  "format_directives [] = Some []"
| "format_directives [c] =
     (if c \<in> set ''.-/:,'' then Some [Lit c] else None)"
| "format_directives (c # x # r) =
     (if c = CHR ''%'' then
        (if x = CHR ''d'' then map_option ((#) Dir_d) (format_directives r)
         else if x = CHR ''m'' then map_option ((#) Dir_m) (format_directives r)
         else if x = CHR ''Y'' then map_option ((#) Dir_Y) (format_directives r)
         else None)
      else if c \<in> set ''.-/:,'' then map_option ((#) (Lit c)) (format_directives (x # r))
      else None)"

definition day2 :: "string \<Rightarrow> (nat \<times> string) option" where
  "day2 s =
     (case s of
        a # b # r \<Rightarrow>
          (case (digit_val a, digit_val b) of
             (Some x, Some y) \<Rightarrow>
               if (x = 3 \<and> y \<le> 1) \<or> (1 \<le> x \<and> x \<le> 2) \<or> (x = 0 \<and> 1 \<le> y)
               then Some (10 * x + y, r) else None
           | _ \<Rightarrow> None)
      | _ \<Rightarrow> None)"

definition digit1 :: "string \<Rightarrow> (nat \<times> string) option" where
  "digit1 s =
     (case s of
        a # r \<Rightarrow> (case digit_val a of
                     Some x \<Rightarrow> if 1 \<le> x then Some (x, r) else None
                   | None \<Rightarrow> None)
      | [] \<Rightarrow> None)"

definition space_digit1 :: "string \<Rightarrow> (nat \<times> string) option" where
  "space_digit1 s =
     (case s of a # r \<Rightarrow> if a = CHR '' '' then digit1 r else None | [] \<Rightarrow> None)"

definition month2 :: "string \<Rightarrow> (nat \<times> string) option" where
  "month2 s =
     (case s of
        a # b # r \<Rightarrow>
          (case (digit_val a, digit_val b) of
             (Some x, Some y) \<Rightarrow>
               if (x = 1 \<and> y \<le> 2) \<or> (x = 0 \<and> 1 \<le> y)
               then Some (10 * x + y, r) else None
           | _ \<Rightarrow> None)
      | _ \<Rightarrow> None)"

definition or_else :: "'a option \<Rightarrow> 'a option \<Rightarrow> 'a option" where
  "or_else a b = (case a of Some x \<Rightarrow> Some x | None \<Rightarrow> b)"

text \<open>The match, with the alternatives of a directive tried in the order of the regular
  expression. The fields are (day, month, year).\<close>

fun match_directives ::
  "directive list \<Rightarrow> string \<Rightarrow> nat \<times> nat \<times> nat \<Rightarrow> (nat \<times> nat \<times> nat) option" where
  "match_directives [] s f = (if s = [] then Some f else None)"
| "match_directives (Lit c # ds) s f =
     (case s of [] \<Rightarrow> None
      | x # r \<Rightarrow> if x = c then match_directives ds r f else None)"
| "match_directives (Dir_d # ds) s f =
     or_else
       (case day2 s of None \<Rightarrow> None
        | Some (v, r) \<Rightarrow> match_directives ds r (v, fst (snd f), snd (snd f)))
       (or_else
          (case digit1 s of None \<Rightarrow> None
           | Some (v, r) \<Rightarrow> match_directives ds r (v, fst (snd f), snd (snd f)))
          (case space_digit1 s of None \<Rightarrow> None
           | Some (v, r) \<Rightarrow> match_directives ds r (v, fst (snd f), snd (snd f))))"
| "match_directives (Dir_m # ds) s f =
     or_else
       (case month2 s of None \<Rightarrow> None
        | Some (v, r) \<Rightarrow> match_directives ds r (fst f, v, snd (snd f)))
       (case digit1 s of None \<Rightarrow> None
        | Some (v, r) \<Rightarrow> match_directives ds r (fst f, v, snd (snd f)))"
| "match_directives (Dir_Y # ds) s f =
     (case parse_digits 4 0 s of None \<Rightarrow> None
      | Some (v, r) \<Rightarrow> match_directives ds r (fst f, fst (snd f), v))"

definition strptime :: "string \<Rightarrow> string \<Rightarrow> datetime option" where
  "strptime date_string fmt =
     (case format_directives fmt of None \<Rightarrow> None
      | Some ds \<Rightarrow>
         (case match_directives ds date_string (1, 1, 1900) of None \<Rightarrow> None
          | Some (d, m, y) \<Rightarrow> new_datetime y m d 0 0 0 0 None))"

subsection \<open>parse_date\<close>

text \<open>
  \<^verbatim>\<open>parse_date\<close> of \<^verbatim>\<open>src/main.py\<close>. The argument is \<open>None\<close> for Python's
  \<^verbatim>\<open>None\<close>, which \<^verbatim>\<open>not date_str\<close> catches together with the empty string.
  \<open>parse_date_with\<close> is the function over any behaviour of the two library calls
  (\<open>None\<close> for their \<^verbatim>\<open>ValueError\<close>); \<open>parse_date\<close> is the function with the
  library models above.
\<close>

definition parse_date_with ::
  "(string \<Rightarrow> 'd option) \<Rightarrow> (string \<Rightarrow> string \<Rightarrow> 'd option) \<Rightarrow> string option \<Rightarrow> 'd option" where
  "parse_date_with fromiso strp date_str =
     (case date_str of None \<Rightarrow> None
      | Some s \<Rightarrow>
         if s = [] then None
         else (case fromiso s of
                 Some d \<Rightarrow> Some d
               | None \<Rightarrow> (case strp s ''%d.%m.%Y'' of
                             Some d \<Rightarrow> Some d
                           | None \<Rightarrow> None)))"

definition parse_date :: "string option \<Rightarrow> datetime option" where
  "parse_date = parse_date_with fromisoformat strptime"

subsection \<open>Request payloads\<close>

text \<open>
  The handlers take their payload as a Python \<^verbatim>\<open>dict\<close>. A key is absent, present with
  \<^verbatim>\<open>null\<close>, or present with a value; the values are modelled at the types of the
  columns they are stored in. \<^verbatim>\<open>d.get(k)\<close> reads an absent key as \<^verbatim>\<open>None\<close>,
  \<^verbatim>\<open>d[k]\<close> raises \<^verbatim>\<open>KeyError\<close>, which \<^verbatim>\<open>handle_exception\<close> answers with
  status 500.
\<close>

datatype 'a field = Absent | Null | Value 'a

definition dict_get :: "'a field \<Rightarrow> 'a option" where
  "dict_get f = (case f of Absent \<Rightarrow> None | Null \<Rightarrow> None | Value v \<Rightarrow> Some v)"

definition dict_index :: "'a field \<Rightarrow> http_error + 'a option" where
  "dict_index f =
     (case f of Absent \<Rightarrow> Inl HTTP_500_INTERNAL_SERVER_ERROR
      | Null \<Rightarrow> Inr None
      | Value v \<Rightarrow> Inr (Some v))"

text \<open>\<^verbatim>\<open>d.get(k, False)\<close> for a Boolean column with \<^verbatim>\<open>default=False\<close>: an explicit
  \<^verbatim>\<open>None\<close> is left out of the INSERT by the ORM, so that the column default is
  stored.\<close>

definition dict_get_flag :: "bool field \<Rightarrow> bool" where
  "dict_get_flag f = (case f of Absent \<Rightarrow> False | Null \<Rightarrow> False | Value b \<Rightarrow> b)"

text \<open>Truth value of an optional string: \<^verbatim>\<open>None\<close> and the empty string are false.\<close>

definition truthy :: "string option \<Rightarrow> bool" where
  "truthy v = (case v of None \<Rightarrow> False | Some s \<Rightarrow> s \<noteq> [])"

record branch_data =
  bd_id :: "string field"
  bd_branchId :: "string field"
  bd_name :: "string field"
  bd_description :: "string field"

record task_data =
  td_title :: "string field"
  td_description :: "string field"
  td_assignedTo :: "int field"
  td_done :: "bool field"
  td_hasProblem :: "bool field"
  td_problemMessage :: "string field"
  td_startDate :: "string field"
  td_endDate :: "string field"
  td_skillId :: "int field"
  td_file :: "string field"

record user_project_data =
  upd_userId :: "int field"

subsection \<open>The tables of \<^verbatim>\<open>src/models.py\<close>\<close>

text \<open>
  One record per mapped class, one field per column, named by a letter for the table and
  the column's name. A nullable column is an option. The Boolean columns have the default
  \<^verbatim>\<open>False\<close> (or \<^verbatim>\<open>True\<close>) and no handler stores \<^verbatim>\<open>None\<close> in them.
\<close>

datatype ProjectRole = OWNER | MEMBER | MANAGER

record user_project_row =
  up_user_id :: int
  up_project_id :: int
  up_role :: ProjectRole

record user =
  u_id :: int
  u_login :: "string option"
  u_email :: "string option"
  u_hashed_password :: "string option"
  u_role :: "string option"
  u_full_name :: "string option"
  u_avatar_url :: "string option"
  u_is_active :: bool
  u_created_at :: "datetime option"

record project =
  p_id :: int
  p_name :: "string option"
  p_description :: "string option"
  p_avatar_url :: "string option"
  p_created_at :: "datetime option"
  p_is_active :: bool
  p_created_by :: "int option"

record branch =
  b_id :: string
  b_name :: "string option"
  b_description :: "string option"
  b_project_id :: "int option"
  b_created_at :: "datetime option"
  b_active :: bool

record task =
  t_id :: string
  t_name :: "string option"
  t_description :: "string option"
  t_parent_id :: "string option"
  t_branch_id :: "string option"
  t_assigned_to_id :: "int option"
  t_created_at :: "datetime option"
  t_updated_at :: "datetime option"
  t_done :: bool
  t_has_problem :: bool
  t_problem_message :: "string option"
  t_start_date :: "datetime option"
  t_end_date :: "datetime option"
  t_skill_id :: "int option"
  t_file :: "string option"

record skill =
  s_id :: int
  s_name :: "string option"
  s_type :: "string option"
  s_created_at :: "datetime option"

record store =
  users :: "user list"
  projects :: "project list"
  branches :: "branch list"
  tasks :: "task list"
  skills :: "skill list"
  user_project :: "user_project_row list"
  session_timezone :: "datetime \<Rightarrow> datetime"

text \<open>
  \<^verbatim>\<open>start_date\<close> and \<^verbatim>\<open>end_date\<close> of a task are \<^verbatim>\<open>Column(DateTime)\<close>, in PostgreSQL
  \<^verbatim>\<open>timestamp without time zone\<close>: a row holds no UTC offset. A naive datetime is
  stored as it is. Of an aware one the database keeps a local time, which the driver and
  the time zone of the database session determine and the program does not:
  \<open>session_timezone\<close> is that conversion, a setting of the database, and whatever it
  gives is stored without the offset.
\<close>

definition to_timestamp :: "store \<Rightarrow> datetime \<Rightarrow> datetime" where
  "to_timestamp s d =
     (if tzinfo d = None then d else (session_timezone s d)\<lparr>tzinfo := None\<rparr>)"

text \<open>\<^verbatim>\<open>project.members\<close>: the users joined to the project through
  \<^verbatim>\<open>user_project\<close>. \<^verbatim>\<open>current_user in project.members\<close> compares ORM objects of
  one session, that is, primary keys.\<close>

definition members :: "store \<Rightarrow> int \<Rightarrow> user list" where
  "members s pid =
     filter (\<lambda>u. (u_id u, pid) \<in> set (map (\<lambda>r. (up_user_id r, up_project_id r)) (user_project s)))
       (users s)"

definition in_members :: "user \<Rightarrow> user list \<Rightarrow> bool" where
  "in_members u us = (u_id u \<in> set (map u_id us))"

text \<open>\<^verbatim>\<open>branch.project\<close> and \<^verbatim>\<open>task.branch\<close>; \<open>None\<close> is Python's \<^verbatim>\<open>None\<close>,
  on which the next attribute access raises \<^verbatim>\<open>AttributeError\<close>.\<close>

definition branch_project :: "store \<Rightarrow> branch \<Rightarrow> project option" where
  "branch_project s b =
     (case b_project_id b of None \<Rightarrow> None
      | Some pid \<Rightarrow> find (\<lambda>p. p_id p = pid) (projects s))"

definition task_branch :: "store \<Rightarrow> task \<Rightarrow> branch option" where
  "task_branch s t =
     (case t_branch_id t of None \<Rightarrow> None
      | Some bid \<Rightarrow> find (\<lambda>b. b_id b = bid) (branches s))"

definition task_project :: "store \<Rightarrow> task \<Rightarrow> project option" where
  "task_project s t =
     (case task_branch s t of None \<Rightarrow> None | Some b \<Rightarrow> branch_project s b)"

text \<open>The foreign keys of a task row that a handler writes; a violation is an
  \<^verbatim>\<open>IntegrityError\<close> at the commit.\<close>

definition task_fk_ok :: "store \<Rightarrow> task \<Rightarrow> bool" where
  "task_fk_ok s t =
     ((case t_assigned_to_id t of None \<Rightarrow> True | Some u \<Rightarrow> u \<in> set (map u_id (users s))) \<and>
      (case t_skill_id t of None \<Rightarrow> True | Some k \<Rightarrow> k \<in> set (map s_id (skills s))))"

text \<open>An UPDATE of a task row: \<^verbatim>\<open>updated_at\<close> has \<^verbatim>\<open>onupdate=datetime.utcnow\<close>, and
  the ORM emits the UPDATE only when a column changed.\<close>

definition flush_task :: "datetime \<Rightarrow> task \<Rightarrow> task \<Rightarrow> task" where
  "flush_task utcnow old new = (if new = old then old else new\<lparr>t_updated_at := Some utcnow\<rparr>)"

text \<open>The row of a task after the commit, as the next request reads it. An INSERT writes
  both dates; an UPDATE writes a date only when the handler gave it another value, and
  leaves the stored one otherwise.\<close>

definition inserted_task :: "store \<Rightarrow> task \<Rightarrow> task" where
  "inserted_task s t =
     t\<lparr>t_start_date := map_option (to_timestamp s) (t_start_date t),
       t_end_date := map_option (to_timestamp s) (t_end_date t)\<rparr>"

definition updated_task :: "store \<Rightarrow> task \<Rightarrow> task \<Rightarrow> task" where
  "updated_task s old new =
     new\<lparr>t_start_date :=
           (if t_start_date new = t_start_date old then t_start_date old
            else map_option (to_timestamp s) (t_start_date new)),
         t_end_date :=
           (if t_end_date new = t_end_date old then t_end_date old
            else map_option (to_timestamp s) (t_end_date new))\<rparr>"

definition replace_task :: "task \<Rightarrow> task list \<Rightarrow> task list" where
  "replace_task t' ts = map (\<lambda>t. if t_id t = t_id t' then t' else t) ts"

definition replace_branch :: "branch \<Rightarrow> branch list \<Rightarrow> branch list" where
  "replace_branch b' bs = map (\<lambda>b. if b_id b = b_id b' then b' else b) bs"

subsection \<open>Branch handlers\<close>

text \<open>
  A handler takes the store, the acting user (\<^verbatim>\<open>current_user\<close>), its path parameters
  and its payload; a handler that writes also takes the reading of
  \<^verbatim>\<open>datetime.utcnow\<close> at its commit and, where it creates a row, the fresh
  \<^verbatim>\<open>str(uuid.uuid4())\<close>. It returns \<open>Inl\<close> of the status of the
  \<^verbatim>\<open>HTTPException\<close>, with the store as it was, or \<open>Inr\<close> of its result and the
  store after the commit.
\<close>

definition add_branch ::
  "store \<Rightarrow> user \<Rightarrow> int \<Rightarrow> branch_data \<Rightarrow> string \<Rightarrow> datetime \<Rightarrow> http_error + (branch \<times> store)" where
  "add_branch s current_user project_id bd uuid4 utcnow =
     (case find (\<lambda>p. p_id p = project_id) (projects s) of
        None \<Rightarrow> Inl HTTP_404_NOT_FOUND
      | Some project \<Rightarrow>
          if \<not> in_members current_user (members s (p_id project)) then Inl HTTP_403_FORBIDDEN
          else (case dict_index (bd_name bd) of
                  Inl e \<Rightarrow> Inl e
                | Inr name \<Rightarrow>
                    let new_branch = \<lparr>b_id = uuid4, b_name = name, b_description = None,
                                      b_project_id = Some project_id,
                                      b_created_at = Some utcnow, b_active = True\<rparr>
                    in if uuid4 \<in> set (map b_id (branches s))
                       then Inl HTTP_500_INTERNAL_SERVER_ERROR
                       else Inr (new_branch, s\<lparr>branches := branches s @ [new_branch]\<rparr>)))"

definition edit_project_branch ::
  "store \<Rightarrow> user \<Rightarrow> int \<Rightarrow> branch_data \<Rightarrow> http_error + (bool \<times> store)" where
  "edit_project_branch s current_user project_id bd =
     (case dict_index (bd_id bd) of
        Inl e \<Rightarrow> Inl e
      | Inr bid \<Rightarrow>
         (case find (\<lambda>b. Some (b_id b) = bid) (branches s) of
            None \<Rightarrow> Inl HTTP_404_NOT_FOUND
          | Some branch \<Rightarrow>
              if b_project_id branch \<noteq> Some project_id then Inl HTTP_404_NOT_FOUND
              else (case branch_project s branch of
                      None \<Rightarrow> Inl HTTP_500_INTERNAL_SERVER_ERROR
                    | Some project \<Rightarrow>
                        if \<not> in_members current_user (members s (p_id project))
                        then Inl HTTP_403_FORBIDDEN
                        else (case dict_index (bd_name bd) of
                                Inl e \<Rightarrow> Inl e
                              | Inr name \<Rightarrow>
                                  Inr (True,
                                       s\<lparr>branches :=
                                           replace_branch
                                             (branch\<lparr>b_name := name,
                                                     b_description := dict_get (bd_description bd)\<rparr>)
                                             (branches s)\<rparr>)))))"

text \<open>\<^verbatim>\<open>db.delete(branch)\<close>: the relationship \<^verbatim>\<open>Branch.tasks\<close> has no delete
  cascade, so the ORM sets \<^verbatim>\<open>branch_id\<close> of the branch's tasks to \<^verbatim>\<open>NULL\<close>.\<close>

definition delete_project_branch ::
  "store \<Rightarrow> user \<Rightarrow> int \<Rightarrow> branch_data \<Rightarrow> datetime \<Rightarrow> http_error + (bool \<times> store)" where
  "delete_project_branch s current_user project_id bd utcnow =
     (case dict_index (bd_branchId bd) of
        Inl e \<Rightarrow> Inl e
      | Inr bid \<Rightarrow>
         (case find (\<lambda>b. Some (b_id b) = bid) (branches s) of
            None \<Rightarrow> Inl HTTP_404_NOT_FOUND
          | Some branch \<Rightarrow>
              if b_project_id branch \<noteq> Some project_id then Inl HTTP_404_NOT_FOUND
              else (case branch_project s branch of
                      None \<Rightarrow> Inl HTTP_500_INTERNAL_SERVER_ERROR
                    | Some project \<Rightarrow>
                        if \<not> in_members current_user (members s (p_id project))
                        then Inl HTTP_403_FORBIDDEN
                        else Inr (True,
                                  s\<lparr>branches := filter (\<lambda>b. b_id b \<noteq> b_id branch) (branches s),
                                    tasks :=
                                      map (\<lambda>t. if t_branch_id t = Some (b_id branch)
                                                then t\<lparr>t_branch_id := None,
                                                       t_updated_at := Some utcnow\<rparr>
                                                else t)
                                        (tasks s)\<rparr>))))"

subsection \<open>Task handlers\<close>

definition add_task ::
  "store \<Rightarrow> user \<Rightarrow> int \<Rightarrow> string \<Rightarrow> task_data \<Rightarrow> string \<Rightarrow> datetime \<Rightarrow> http_error + (task \<times> store)" where
  "add_task s current_user project_id branch_id td uuid4 utcnow =
     (case find (\<lambda>b. b_id b = branch_id) (branches s) of
        None \<Rightarrow> Inl HTTP_404_NOT_FOUND
      | Some branch \<Rightarrow>
          if b_project_id branch \<noteq> Some project_id then Inl HTTP_404_NOT_FOUND
          else (case branch_project s branch of
             None \<Rightarrow> Inl HTTP_500_INTERNAL_SERVER_ERROR
           | Some project \<Rightarrow>
               if \<not> in_members current_user (members s (p_id project))
               then Inl HTTP_403_FORBIDDEN
               else
                (case (if truthy (dict_get (td_startDate td))
                       then map_sum id parse_date (dict_index (td_startDate td))
                       else Inr None) of
                   Inl e \<Rightarrow> Inl e
                 | Inr start_date \<Rightarrow>
                (case (if truthy (dict_get (td_endDate td))
                       then map_sum id parse_date (dict_index (td_startDate td))
                       else Inr None) of
                   Inl e \<Rightarrow> Inl e
                 | Inr end_date \<Rightarrow>
                (case dict_index (td_title td) of
                   Inl e \<Rightarrow> Inl e
                 | Inr title \<Rightarrow>
                (case dict_index (td_description td) of
                   Inl e \<Rightarrow> Inl e
                 | Inr description \<Rightarrow>
                    let new_task =
                          \<lparr>t_id = uuid4, t_name = title, t_description = description,
                           t_parent_id = None, t_branch_id = Some branch_id,
                           t_assigned_to_id = dict_get (td_assignedTo td),
                           t_created_at = Some utcnow, t_updated_at = Some utcnow,
                           t_done = dict_get_flag (td_done td),
                           t_has_problem = dict_get_flag (td_hasProblem td),
                           t_problem_message = dict_get (td_problemMessage td),
                           t_start_date = start_date, t_end_date = end_date,
                           t_skill_id = dict_get (td_skillId td),
                           t_file = dict_get (td_file td)\<rparr>
                    in if uuid4 \<in> set (map t_id (tasks s)) \<or> \<not> task_fk_ok s new_task
                       then Inl HTTP_500_INTERNAL_SERVER_ERROR
                       else Inr (inserted_task s new_task,
                                 s\<lparr>tasks := tasks s @ [inserted_task s new_task]\<rparr>)))))))"

text \<open>The four handlers of a task look the task up by \<^verbatim>\<open>task_id\<close> and compare its
  \<^verbatim>\<open>branch_id\<close> with the path's; \<^verbatim>\<open>project_id\<close> of the path is not read.\<close>

text \<open>The task object of \<^verbatim>\<open>edit_task_in_branch\<close> after the handler's assignments,
  before the commit: the two dates are assigned only when the request's value is true
  (a non-empty string), the other six attributes always.\<close>

definition edited_task :: "task_data \<Rightarrow> task \<Rightarrow> string option \<Rightarrow> string option \<Rightarrow> task" where
  "edited_task td task title description =
     (let task1 = (if truthy (dict_get (td_startDate td))
                   then task\<lparr>t_start_date := parse_date (dict_get (td_startDate td))\<rparr>
                   else task);
          task2 = (if truthy (dict_get (td_endDate td))
                   then task1\<lparr>t_end_date := parse_date (dict_get (td_endDate td))\<rparr>
                   else task1)
      in task2\<lparr>t_name := title, t_description := description,
                t_assigned_to_id := dict_get (td_assignedTo td),
                t_skill_id := dict_get (td_skillId td),
                t_file := dict_get (td_file td),
                t_problem_message := dict_get (td_problemMessage td)\<rparr>)"

definition edit_task_in_branch ::
  "store \<Rightarrow> user \<Rightarrow> int \<Rightarrow> string \<Rightarrow> string \<Rightarrow> task_data \<Rightarrow> datetime \<Rightarrow> http_error + (bool \<times> store)" where
  "edit_task_in_branch s current_user project_id branch_id task_id td utcnow =
     (case find (\<lambda>t. t_id t = task_id) (tasks s) of
        None \<Rightarrow> Inl HTTP_404_NOT_FOUND
      | Some task \<Rightarrow>
          if t_branch_id task \<noteq> Some branch_id then Inl HTTP_404_NOT_FOUND
          else (case task_project s task of
             None \<Rightarrow> Inl HTTP_500_INTERNAL_SERVER_ERROR
           | Some project \<Rightarrow>
               if \<not> in_members current_user (members s (p_id project))
               then Inl HTTP_403_FORBIDDEN
               else
                (case dict_index (td_title td) of
                   Inl e \<Rightarrow> Inl e
                 | Inr title \<Rightarrow>
                (case dict_index (td_description td) of
                   Inl e \<Rightarrow> Inl e
                 | Inr description \<Rightarrow>
                    if \<not> task_fk_ok s (edited_task td task title description)
                    then Inl HTTP_500_INTERNAL_SERVER_ERROR
                    else Inr (True,
                              s\<lparr>tasks :=
                                  replace_task
                                    (updated_task s task
                                       (flush_task utcnow task
                                          (edited_task td task title description)))
                                    (tasks s)\<rparr>)))))"

text \<open>\<^verbatim>\<open>db.delete(task)\<close>: the backref \<^verbatim>\<open>subtasks\<close> has no delete cascade, so the
  ORM sets \<^verbatim>\<open>parent_id\<close> of the task's subtasks to \<^verbatim>\<open>NULL\<close>.\<close>

definition delete_task_in_branch ::
  "store \<Rightarrow> user \<Rightarrow> int \<Rightarrow> string \<Rightarrow> string \<Rightarrow> task_data \<Rightarrow> datetime \<Rightarrow> http_error + (bool \<times> store)" where
  "delete_task_in_branch s current_user project_id branch_id task_id td utcnow =
     (case find (\<lambda>t. t_id t = task_id) (tasks s) of
        None \<Rightarrow> Inl HTTP_404_NOT_FOUND
      | Some task \<Rightarrow>
          if t_branch_id task \<noteq> Some branch_id then Inl HTTP_404_NOT_FOUND
          else (case task_project s task of
             None \<Rightarrow> Inl HTTP_500_INTERNAL_SERVER_ERROR
           | Some project \<Rightarrow>
               if \<not> in_members current_user (members s (p_id project))
               then Inl HTTP_403_FORBIDDEN
               else Inr (True,
                         s\<lparr>tasks :=
                             map (\<lambda>t. if t_parent_id t = Some (t_id task)
                                       then t\<lparr>t_parent_id := None, t_updated_at := Some utcnow\<rparr>
                                       else t)
                               (filter (\<lambda>t. t_id t \<noteq> t_id task) (tasks s))\<rparr>)))"

definition done_task_in_branch ::
  "store \<Rightarrow> user \<Rightarrow> int \<Rightarrow> string \<Rightarrow> string \<Rightarrow> string \<Rightarrow> datetime \<Rightarrow> http_error + (bool \<times> store)" where
  "done_task_in_branch s current_user project_id branch_id task_id problemMessage utcnow =
     (case find (\<lambda>t. t_id t = task_id) (tasks s) of
        None \<Rightarrow> Inl HTTP_404_NOT_FOUND
      | Some task \<Rightarrow>
          if t_branch_id task \<noteq> Some branch_id then Inl HTTP_404_NOT_FOUND
          else (case task_project s task of
             None \<Rightarrow> Inl HTTP_500_INTERNAL_SERVER_ERROR
           | Some project \<Rightarrow>
               if \<not> in_members current_user (members s (p_id project))
               then Inl HTTP_403_FORBIDDEN
               else Inr (True,
                         s\<lparr>tasks :=
                             replace_task
                               (flush_task utcnow task
                                  (task\<lparr>t_done := True, t_has_problem := False,
                                        t_problem_message := Some problemMessage\<rparr>))
                               (tasks s)\<rparr>)))"

definition problem_task_in_branch ::
  "store \<Rightarrow> user \<Rightarrow> int \<Rightarrow> string \<Rightarrow> string \<Rightarrow> string \<Rightarrow> datetime \<Rightarrow> http_error + (bool \<times> store)" where
  "problem_task_in_branch s current_user project_id branch_id task_id problemMessage utcnow =
     (case find (\<lambda>t. t_id t = task_id) (tasks s) of
        None \<Rightarrow> Inl HTTP_404_NOT_FOUND
      | Some task \<Rightarrow>
          if t_branch_id task \<noteq> Some branch_id then Inl HTTP_404_NOT_FOUND
          else (case task_project s task of
             None \<Rightarrow> Inl HTTP_500_INTERNAL_SERVER_ERROR
           | Some project \<Rightarrow>
               if \<not> in_members current_user (members s (p_id project))
               then Inl HTTP_403_FORBIDDEN
               else Inr (True,
                         s\<lparr>tasks :=
                             replace_task
                               (flush_task utcnow task
                                  (task\<lparr>t_has_problem := True, t_done := False,
                                        t_problem_message := Some problemMessage\<rparr>))
                               (tasks s)\<rparr>)))"

subsection \<open>Membership\<close>

definition add_user_to_project ::
  "store \<Rightarrow> user \<Rightarrow> int \<Rightarrow> user_project_data \<Rightarrow> http_error + (project \<times> store)" where
  "add_user_to_project s current_user project_id upd =
     (case find (\<lambda>p. p_id p = project_id) (projects s) of
        None \<Rightarrow> Inl HTTP_404_NOT_FOUND
      | Some project \<Rightarrow>
          if \<not> in_members current_user (members s (p_id project)) then Inl HTTP_403_FORBIDDEN
          else (case dict_index (upd_userId upd) of
                  Inl e \<Rightarrow> Inl e
                | Inr uid \<Rightarrow>
                   (case find (\<lambda>u. Some (u_id u) = uid) (users s) of
                      None \<Rightarrow> Inl HTTP_404_NOT_FOUND
                    | Some u \<Rightarrow>
                        if in_members u (members s (p_id project)) then Inl HTTP_400_BAD_REQUEST
                        else Inr (project,
                                  s\<lparr>user_project :=
                                      user_project s @
                                      [\<lparr>up_user_id = u_id u, up_project_id = p_id project,
                                        up_role = MEMBER\<rparr>]\<rparr>))))"

subsection \<open>get_project_info\<close>

text \<open>The dictionaries of the response, one record per dictionary, one field per key.\<close>

record task_dto =
  dto_taskId :: string
  dto_title :: "string option"
  dto_description :: "string option"
  dto_startDate :: "string option"
  dto_endDate :: "string option"
  dto_done :: bool
  dto_hasProblem :: bool
  dto_problemMessage :: "string option"
  dto_skillId :: "int option"
  dto_assignedTo :: "int option"
  dto_file :: "string option"

record statistics =
  taskCount :: nat
  completedTasksCount :: nat
  delayedTasksCount :: nat
  problemTasksCount :: nat

record branch_dto =
  bdto_branchId :: string
  bdto_name :: "string option"
  bdto_tasks :: "task_dto list"
  bdto_statistics :: statistics

record member_dto =
  mdto_userId :: int
  mdto_login :: "string option"
  mdto_email :: "string option"
  mdto_role :: "string option"
  mdto_avatarUrl :: "string option"

record project_dto =
  pdto_id :: int
  pdto_name :: "string option"
  pdto_description :: "string option"
  pdto_createdAt :: "string option"
  pdto_avatarUrl :: "string option"
  pdto_projectMembers :: "member_dto list"

record project_tree =
  pt_projectId :: int
  pt_branches :: "branch_dto list"
  pt_statistics :: statistics

record project_info =
  pi_projectId :: int
  pi_projectDTO :: project_dto
  pi_project :: project_tree

definition task_dto_of :: "task \<Rightarrow> task_dto" where
  "task_dto_of t =
     \<lparr>dto_taskId = t_id t, dto_title = t_name t, dto_description = t_description t,
      dto_startDate = map_option isoformat (t_start_date t),
      dto_endDate = map_option isoformat (t_end_date t),
      dto_done = t_done t, dto_hasProblem = t_has_problem t,
      dto_problemMessage = t_problem_message t, dto_skillId = t_skill_id t,
      dto_assignedTo = t_assigned_to_id t, dto_file = t_file t\<rparr>"

definition member_dto_of :: "user \<Rightarrow> member_dto" where
  "member_dto_of u =
     \<lparr>mdto_userId = u_id u, mdto_login = u_login u, mdto_email = u_email u,
      mdto_role = u_role u, mdto_avatarUrl = u_avatar_url u\<rparr>"

text \<open>
  The handler reads \<^verbatim>\<open>datetime.now()\<close> once for every comparison it makes. \<open>now k\<close>
  is the \<open>k\<close>-th reading of the clock during the request; the loops pass on the number
  of readings made so far.

  The loop over the tasks of a branch, on the four counters of the project. A task whose
  \<^verbatim>\<open>end_date\<close> is aware cannot be compared with the naive \<^verbatim>\<open>datetime.now()\<close>:
  \<^verbatim>\<open>TypeError\<close>, status 500.
\<close>

fun count_tasks ::
  "(nat \<Rightarrow> datetime) \<Rightarrow> nat \<Rightarrow> statistics \<Rightarrow> task list \<Rightarrow> http_error + (nat \<times> statistics)" where
  "count_tasks now k st [] = Inr (k, st)"
| "count_tasks now k st (t # ts) =
     (let st1 = st\<lparr>taskCount := taskCount st + 1\<rparr>;
          st2 = (if t_done t then st1\<lparr>completedTasksCount := completedTasksCount st1 + 1\<rparr>
                 else st1);
          st3 = (if t_has_problem t then st2\<lparr>problemTasksCount := problemTasksCount st2 + 1\<rparr>
                 else st2)
      in case t_end_date t of
           None \<Rightarrow> count_tasks now k st3 ts
         | Some e \<Rightarrow>
            (case datetime_lt e (now k) of
               None \<Rightarrow> Inl HTTP_500_INTERNAL_SERVER_ERROR
             | Some b \<Rightarrow>
                 count_tasks now (Suc k)
                   (if b \<and> \<not> t_done t
                    then st3\<lparr>delayedTasksCount := delayedTasksCount st3 + 1\<rparr> else st3)
                   ts))"

text \<open>\<^verbatim>\<open>sum(1 for t in branch_tasks if t["endDate"] and
  datetime.fromisoformat(t["endDate"]) < datetime.now() and not t["done"])\<close>\<close>

fun delayed_tasks_count ::
  "(nat \<Rightarrow> datetime) \<Rightarrow> nat \<Rightarrow> task_dto list \<Rightarrow> http_error + (nat \<times> nat)" where
  "delayed_tasks_count now k [] = Inr (k, 0)"
| "delayed_tasks_count now k (t # ts) =
     (case dto_endDate t of
        None \<Rightarrow> delayed_tasks_count now k ts
      | Some e \<Rightarrow>
          if e = [] then delayed_tasks_count now k ts
          else (case fromisoformat e of
                  None \<Rightarrow> Inl HTTP_500_INTERNAL_SERVER_ERROR
                | Some d \<Rightarrow>
                   (case datetime_lt d (now k) of
                      None \<Rightarrow> Inl HTTP_500_INTERNAL_SERVER_ERROR
                    | Some b \<Rightarrow>
                       (case delayed_tasks_count now (Suc k) ts of
                          Inl err \<Rightarrow> Inl err
                        | Inr (k', n) \<Rightarrow>
                            Inr (k', (if b \<and> \<not> dto_done t then 1 else 0) + n)))))"

definition branch_statistics ::
  "(nat \<Rightarrow> datetime) \<Rightarrow> nat \<Rightarrow> task_dto list \<Rightarrow> http_error + (nat \<times> statistics)" where
  "branch_statistics now k branch_tasks =
     (case delayed_tasks_count now k branch_tasks of
        Inl e \<Rightarrow> Inl e
      | Inr (k', delayed) \<Rightarrow>
          Inr (k', \<lparr>taskCount = length branch_tasks,
                    completedTasksCount = length (filter dto_done branch_tasks),
                    delayedTasksCount = delayed,
                    problemTasksCount = length (filter dto_hasProblem branch_tasks)\<rparr>))"

text \<open>The loop over the branches of the project.\<close>

fun branch_loop ::
  "store \<Rightarrow> (nat \<Rightarrow> datetime) \<Rightarrow> nat \<Rightarrow> statistics \<Rightarrow> branch list \<Rightarrow>
     http_error + (nat \<times> statistics \<times> branch_dto list)" where
  "branch_loop s now k st [] = Inr (k, st, [])"
| "branch_loop s now k st (b # bs) =
     (let ts = filter (\<lambda>t. t_branch_id t = Some (b_id b)) (tasks s) in
      case count_tasks now k st ts of
        Inl e \<Rightarrow> Inl e
      | Inr (k1, st1) \<Rightarrow>
         (case branch_statistics now k1 (map task_dto_of ts) of
            Inl e \<Rightarrow> Inl e
          | Inr (k2, bst) \<Rightarrow>
             (case branch_loop s now k2 st1 bs of
                Inl e \<Rightarrow> Inl e
              | Inr (k3, st3, dtos) \<Rightarrow>
                  Inr (k3, st3,
                       \<lparr>bdto_branchId = b_id b, bdto_name = b_name b,
                        bdto_tasks = map task_dto_of ts, bdto_statistics = bst\<rparr> # dtos))))"

definition get_project_info ::
  "store \<Rightarrow> user \<Rightarrow> int \<Rightarrow> (nat \<Rightarrow> datetime) \<Rightarrow> http_error + project_info" where
  "get_project_info s current_user project_id now =
     (case find (\<lambda>p. p_id p = project_id) (projects s) of
        None \<Rightarrow> Inl HTTP_404_NOT_FOUND
      | Some project \<Rightarrow>
          if \<not> in_members current_user (members s (p_id project)) then Inl HTTP_403_FORBIDDEN
          else
           (case branch_loop s now 0
                   \<lparr>taskCount = 0, completedTasksCount = 0, delayedTasksCount = 0,
                    problemTasksCount = 0\<rparr>
                   (filter (\<lambda>b. b_project_id b = Some project_id) (branches s)) of
              Inl e \<Rightarrow> Inl e
            | Inr (k, task_statistics, branch_dtos) \<Rightarrow>
                Inr \<lparr>pi_projectId = p_id project,
                     pi_projectDTO =
                       \<lparr>pdto_id = p_id project, pdto_name = p_name project,
                        pdto_description = p_description project,
                        pdto_createdAt = map_option isoformat (p_created_at project),
                        pdto_avatarUrl = p_avatar_url project,
                        pdto_projectMembers = map member_dto_of (members s (p_id project))\<rparr>,
                     pi_project =
                       \<lparr>pt_projectId = p_id project, pt_branches = branch_dtos,
                        pt_statistics = task_statistics\<rparr>\<rparr>))"

subsection \<open>The counters of the summary, as the specification states them\<close>

text \<open>
  The specification classifies every task of a project at one instant \<open>asOf\<close>: completed
  when \<open>done\<close> is set, problem when \<open>has_problem\<close> is set, delayed when it has an end date
  strictly before \<open>asOf\<close> and \<open>done\<close> is not set. \<open>classified\<close> counts a list of tasks
  that way; the handler's own counters are \<open>count_tasks\<close> and \<open>branch_statistics\<close>
  above. \<open>project_branches\<close> and \<open>branch_tasks\<close> are the two queries of the handler.
\<close>

definition project_branches :: "store \<Rightarrow> int \<Rightarrow> branch list" where
  "project_branches s pid = filter (\<lambda>b. b_project_id b = Some pid) (branches s)"

definition branch_tasks :: "store \<Rightarrow> branch \<Rightarrow> task list" where
  "branch_tasks s b = filter (\<lambda>t. t_branch_id t = Some (b_id b)) (tasks s)"

definition is_delayed :: "datetime \<Rightarrow> task \<Rightarrow> bool" where
  "is_delayed asOf t =
     (case t_end_date t of
        None \<Rightarrow> False
      | Some e \<Rightarrow> datetime_lt e asOf = Some True \<and> \<not> t_done t)"

definition classified :: "datetime \<Rightarrow> task list \<Rightarrow> statistics" where
  "classified asOf ts =
     \<lparr>taskCount = length ts,
      completedTasksCount = length (filter t_done ts),
      delayedTasksCount = length (filter (is_delayed asOf) ts),
      problemTasksCount = length (filter t_has_problem ts)\<rparr>"

text \<open>Every \<^verbatim>\<open>datetime\<close> object satisfies the checks of its constructor; the end dates
  of the rows are such objects.\<close>

definition end_dates_valid :: "store \<Rightarrow> bool" where
  "end_dates_valid s =
     list_all (\<lambda>t. case t_end_date t of None \<Rightarrow> True | Some e \<Rightarrow> valid_datetime e) (tasks s)"

subsection \<open>The resources of a project\<close>

text \<open>A branch id names a branch of project \<open>pid\<close>; a task id names a task of branch
  \<open>bid\<close>, which is a branch of project \<open>pid\<close>. These are the resources the handlers
  reach from their path parameters, with the project as the owner.\<close>

definition branch_in_project :: "store \<Rightarrow> string \<Rightarrow> int \<Rightarrow> bool" where
  "branch_in_project s bid pid =
     (case find (\<lambda>b. b_id b = bid) (branches s) of
        None \<Rightarrow> False
      | Some b \<Rightarrow> b_project_id b = Some pid \<and> find (\<lambda>p. p_id p = pid) (projects s) \<noteq> None)"

definition task_in_project :: "store \<Rightarrow> string \<Rightarrow> string \<Rightarrow> int \<Rightarrow> bool" where
  "task_in_project s tid bid pid =
     (case find (\<lambda>t. t_id t = tid) (tasks s) of
        None \<Rightarrow> False
      | Some t \<Rightarrow> t_branch_id t = Some bid \<and> branch_in_project s bid pid)"

subsection \<open>A small store for the closed instances\<close>

definition ex_created :: datetime where
  "ex_created = \<lparr>year = 2024, month = 1, day = 10, hour = 9, minute = 0, second = 0,
                  microsecond = 0, tzinfo = None\<rparr>"

definition ex_due :: datetime where
  "ex_due = \<lparr>year = 2024, month = 5, day = 1, hour = 0, minute = 0, second = 0,
              microsecond = 0, tzinfo = None\<rparr>"

definition ex_now :: datetime where
  "ex_now = \<lparr>year = 2024, month = 6, day = 1, hour = 12, minute = 30, second = 0,
              microsecond = 0, tzinfo = None\<rparr>"

definition ex_alice :: user where
  "ex_alice = \<lparr>u_id = 1, u_login = Some ''alice'', u_email = Some ''alice@example.org'',
                u_hashed_password = Some ''x'', u_role = Some ''USER'', u_full_name = None,
                u_avatar_url = None, u_is_active = True, u_created_at = Some ex_created\<rparr>"

definition ex_bob :: user where
  "ex_bob = \<lparr>u_id = 2, u_login = Some ''bob'', u_email = Some ''bob@example.org'',
              u_hashed_password = Some ''y'', u_role = Some ''USER'', u_full_name = None,
              u_avatar_url = None, u_is_active = True, u_created_at = Some ex_created\<rparr>"

definition ex_project :: project where
  "ex_project = \<lparr>p_id = 1, p_name = Some ''Alpha'', p_description = Some ''first'',
                  p_avatar_url = None, p_created_at = Some ex_created, p_is_active = True,
                  p_created_by = Some 1\<rparr>"

definition ex_other_project :: project where
  "ex_other_project = \<lparr>p_id = 2, p_name = Some ''Beta'', p_description = Some ''second'',
                        p_avatar_url = None, p_created_at = Some ex_created,
                        p_is_active = True, p_created_by = Some 2\<rparr>"

definition ex_branch :: branch where
  "ex_branch = \<lparr>b_id = ''b1'', b_name = Some ''B1'', b_description = None,
                 b_project_id = Some 1, b_created_at = Some ex_created, b_active = True\<rparr>"

definition ex_task :: task where
  "ex_task = \<lparr>t_id = ''t1'', t_name = Some ''T1'', t_description = Some ''do it'',
               t_parent_id = None, t_branch_id = Some ''b1'', t_assigned_to_id = Some 1,
               t_created_at = Some ex_created, t_updated_at = Some ex_created,
               t_done = False, t_has_problem = True, t_problem_message = Some ''stuck'',
               t_start_date = Some ex_created, t_end_date = Some ex_due,
               t_skill_id = Some 7, t_file = Some ''/media/plan.txt''\<rparr>"

definition ex_task2 :: task where
  "ex_task2 = \<lparr>t_id = ''t2'', t_name = Some ''T2'', t_description = None,
                t_parent_id = None, t_branch_id = Some ''b1'', t_assigned_to_id = None,
                t_created_at = Some ex_created, t_updated_at = Some ex_created,
                t_done = True, t_has_problem = False, t_problem_message = None,
                t_start_date = None, t_end_date = None,
                t_skill_id = None, t_file = None\<rparr>"

definition ex_skill :: skill where
  "ex_skill = \<lparr>s_id = 7, s_name = Some ''python'', s_type = Some ''GENERAL'',
                s_created_at = Some ex_created\<rparr>"

text \<open>Alice is a member of project 1 and Bob of project 2; branch \<open>b1\<close> with its tasks
  \<open>t1\<close> and \<open>t2\<close> belongs to project 1. The session of this database keeps the
  wall-clock fields of an aware datetime.\<close>

definition ex_store :: store where
  "ex_store = \<lparr>users = [ex_alice, ex_bob], projects = [ex_project, ex_other_project],
                branches = [ex_branch], tasks = [ex_task, ex_task2], skills = [ex_skill],
                user_project = [\<lparr>up_user_id = 1, up_project_id = 1, up_role = OWNER\<rparr>,
                                \<lparr>up_user_id = 2, up_project_id = 2, up_role = OWNER\<rparr>],
                session_timezone = (\<lambda>d. d)\<rparr>"

text \<open>Two payloads: a new task with both dates, and an edit that supplies only the two
  required keys.\<close>

definition ex_task_data :: task_data where
  "ex_task_data = \<lparr>td_title = Value ''T3'', td_description = Value ''third'',
                    td_assignedTo = Absent, td_done = Absent, td_hasProblem = Absent,
                    td_problemMessage = Absent, td_startDate = Value ''01.05.2024'',
                    td_endDate = Value ''02.06.2024'', td_skillId = Absent, td_file = Absent\<rparr>"

definition ex_end_only_data :: task_data where
  "ex_end_only_data = ex_task_data\<lparr>td_startDate := Absent\<rparr>"

definition ex_edit_data :: task_data where
  "ex_edit_data = \<lparr>td_title = Value ''T1 renamed'', td_description = Value ''do it'',
                    td_assignedTo = Absent, td_done = Absent, td_hasProblem = Absent,
                    td_problemMessage = Absent, td_startDate = Absent,
                    td_endDate = Absent, td_skillId = Absent, td_file = Absent\<rparr>"

text \<open>An edit whose start date carries a UTC offset.\<close>

definition ex_offset_data :: task_data where
  "ex_offset_data = ex_edit_data\<lparr>td_startDate := Value ''2024-05-01T10:30:00+05:00''\<rparr>"

text \<open>A store whose task \<open>t1\<close> has \<open>done\<close> and \<open>has_problem\<close> both set (\<^verbatim>\<open>add_task\<close>
  takes both flags from the request).\<close>

definition ex_both_store :: store where
  "ex_both_store = ex_store\<lparr>tasks := [ex_task\<lparr>t_done := True\<rparr>, ex_task2]\<rparr>"

text \<open>A payload that names branch \<open>b1\<close>, and the payload that adds Bob to a
  project.\<close>

definition ex_branch_data :: branch_data where
  "ex_branch_data = \<lparr>bd_id = Value ''b1'', bd_branchId = Value ''b1'',
                      bd_name = Value ''B1 renamed'', bd_description = Absent\<rparr>"

definition ex_add_bob :: user_project_data where
  "ex_add_bob = \<lparr>upd_userId = Value 2\<rparr>"

section \<open>Properties\<close>

subsection \<open>Evaluation of the closed instances\<close>

lemmas ex_defs = ex_store_def ex_task_def ex_task2_def ex_branch_def ex_project_def
  ex_other_project_def ex_alice_def ex_bob_def ex_skill_def ex_created_def ex_due_def ex_now_def

lemmas auth_defs = members_def in_members_def task_project_def task_branch_def
  branch_project_def

subsection \<open>markDone and markProblem\<close>

lemma find_task_id: "find (\<lambda>t. t_id t = tid) ts = Some t \<Longrightarrow> t_id t = tid"
  by (induction ts) (auto split: if_splits)

lemma find_replace_task:
  "find (\<lambda>t. t_id t = tid) ts = Some t \<Longrightarrow> t_id t' = tid \<Longrightarrow>
   find (\<lambda>t. t_id t = tid) (replace_task t' ts) = Some t'"
  by (induction ts) (auto simp: replace_task_def)

lemma filter_replace_task:
  "filter (\<lambda>t. t_id t \<noteq> t_id t') (replace_task t' ts) = filter (\<lambda>t. t_id t \<noteq> t_id t') ts"
  by (induction ts) (auto simp: replace_task_def)

lemma map_id_replace_task: "map t_id (replace_task t' ts) = map t_id ts"
  by (induction ts) (auto simp: replace_task_def)

lemma flush_task_id: "t_id new = t_id old \<Longrightarrow> t_id (flush_task now old new) = t_id old"
  by (simp add: flush_task_def)

lemma flush_task_flags:
  "t_done (flush_task now old new) = t_done new"
  "t_has_problem (flush_task now old new) = t_has_problem new"
  "t_problem_message (flush_task now old new) = t_problem_message new"
  by (auto simp: flush_task_def)

text \<open>What a successful call has done: the task it found, and the store it left.\<close>

lemma done_task_success:
  assumes "done_task_in_branch s u pid bid tid m now = Inr (r, s')"
  obtains t where "find (\<lambda>t. t_id t = tid) (tasks s) = Some t"
    and "s' = s\<lparr>tasks := replace_task
                  (flush_task now t (t\<lparr>t_done := True, t_has_problem := False,
                                       t_problem_message := Some m\<rparr>)) (tasks s)\<rparr>"
  using assms unfolding done_task_in_branch_def
  by (auto split: option.splits if_splits)

lemma problem_task_success:
  assumes "problem_task_in_branch s u pid bid tid m now = Inr (r, s')"
  obtains t where "find (\<lambda>t. t_id t = tid) (tasks s) = Some t"
    and "s' = s\<lparr>tasks := replace_task
                  (flush_task now t (t\<lparr>t_has_problem := True, t_done := False,
                                       t_problem_message := Some m\<rparr>)) (tasks s)\<rparr>"
  using assms unfolding problem_task_in_branch_def
  by (auto split: option.splits if_splits)

lemma done_task_after:
  assumes "done_task_in_branch s u pid bid tid m now = Inr (r, s')"
  obtains t where "find (\<lambda>t. t_id t = tid) (tasks s) = Some t"
    and "find (\<lambda>t. t_id t = tid) (tasks s') =
           Some (flush_task now t (t\<lparr>t_done := True, t_has_problem := False,
                                    t_problem_message := Some m\<rparr>))"
proof -
  from assms obtain t where f: "find (\<lambda>t. t_id t = tid) (tasks s) = Some t"
    and s': "s' = s\<lparr>tasks := replace_task
                  (flush_task now t (t\<lparr>t_done := True, t_has_problem := False,
                                       t_problem_message := Some m\<rparr>)) (tasks s)\<rparr>"
    by (rule done_task_success)
  have "t_id (flush_task now t (t\<lparr>t_done := True, t_has_problem := False,
                                  t_problem_message := Some m\<rparr>)) = tid"
    using find_task_id[OF f] by (simp add: flush_task_id)
  then show thesis
    using that[OF f] find_replace_task[OF f] s' by simp
qed

lemma problem_task_after:
  assumes "problem_task_in_branch s u pid bid tid m now = Inr (r, s')"
  obtains t where "find (\<lambda>t. t_id t = tid) (tasks s) = Some t"
    and "find (\<lambda>t. t_id t = tid) (tasks s') =
           Some (flush_task now t (t\<lparr>t_has_problem := True, t_done := False,
                                    t_problem_message := Some m\<rparr>))"
proof -
  from assms obtain t where f: "find (\<lambda>t. t_id t = tid) (tasks s) = Some t"
    and s': "s' = s\<lparr>tasks := replace_task
                  (flush_task now t (t\<lparr>t_has_problem := True, t_done := False,
                                       t_problem_message := Some m\<rparr>)) (tasks s)\<rparr>"
    by (rule problem_task_success)
  have "t_id (flush_task now t (t\<lparr>t_has_problem := True, t_done := False,
                                  t_problem_message := Some m\<rparr>)) = tid"
    using find_task_id[OF f] by (simp add: flush_task_id)
  then show thesis
    using that[OF f] find_replace_task[OF f] s' by simp
qed

lemma ex_done_task:
  "done_task_in_branch ex_store ex_alice 1 ''b1'' ''t1'' ''fixed'' ex_now =
     Inr (True, ex_store\<lparr>tasks :=
       [ex_task\<lparr>t_done := True, t_has_problem := False, t_problem_message := Some ''fixed'',
                t_updated_at := Some ex_now\<rparr>, ex_task2]\<rparr>)"
  by (simp add: done_task_in_branch_def ex_defs auth_defs replace_task_def flush_task_def)

lemma ex_problem_task:
  "problem_task_in_branch ex_store ex_alice 1 ''b1'' ''t2'' ''broken'' ex_now =
     Inr (True, ex_store\<lparr>tasks :=
       [ex_task, ex_task2\<lparr>t_has_problem := True, t_done := False,
                          t_problem_message := Some ''broken'',
                          t_updated_at := Some ex_now\<rparr>]\<rparr>)"
  by (simp add: problem_task_in_branch_def ex_defs auth_defs replace_task_def flush_task_def)

text \<open>
  C2. After a successful \<^verbatim>\<open>done_task_in_branch\<close> with message \<open>m\<close>, the task of that id
  in the store has \<open>done\<close> true, \<open>has_problem\<close> false and \<open>problem_message\<close> equal to
  \<open>m\<close>; after a successful \<^verbatim>\<open>problem_task_in_branch\<close> it has \<open>has_problem\<close> true,
  \<open>done\<close> false and \<open>problem_message\<close> equal to \<open>m\<close>.
\<close>

theorem mark_sets_flags_and_message:
  "(done_task_in_branch s u pid bid tid m now = Inr (r, s') \<longrightarrow>
      (\<exists>t'. find (\<lambda>t. t_id t = tid) (tasks s') = Some t' \<and>
            t_done t' \<and> \<not> t_has_problem t' \<and> t_problem_message t' = Some m)) \<and>
   (problem_task_in_branch s u pid bid tid m now = Inr (r, s') \<longrightarrow>
      (\<exists>t'. find (\<lambda>t. t_id t = tid) (tasks s') = Some t' \<and>
            t_has_problem t' \<and> \<not> t_done t' \<and> t_problem_message t' = Some m))"
proof (intro conjI impI)
  assume "done_task_in_branch s u pid bid tid m now = Inr (r, s')"
  then obtain t where
    "find (\<lambda>t. t_id t = tid) (tasks s') =
       Some (flush_task now t (t\<lparr>t_done := True, t_has_problem := False,
                                t_problem_message := Some m\<rparr>))"
    by (rule done_task_after)
  then show "\<exists>t'. find (\<lambda>t. t_id t = tid) (tasks s') = Some t' \<and>
            t_done t' \<and> \<not> t_has_problem t' \<and> t_problem_message t' = Some m"
    by (simp add: flush_task_flags)
next
  assume "problem_task_in_branch s u pid bid tid m now = Inr (r, s')"
  then obtain t where
    "find (\<lambda>t. t_id t = tid) (tasks s') =
       Some (flush_task now t (t\<lparr>t_has_problem := True, t_done := False,
                                t_problem_message := Some m\<rparr>))"
    by (rule problem_task_after)
  then show "\<exists>t'. find (\<lambda>t. t_id t = tid) (tasks s') = Some t' \<and>
            t_has_problem t' \<and> \<not> t_done t' \<and> t_problem_message t' = Some m"
    by (simp add: flush_task_flags)
qed

theorem mark_sets_flags_and_message_witness:
  "(\<exists>s'. done_task_in_branch ex_store ex_alice 1 ''b1'' ''t1'' ''fixed'' ex_now = Inr (True, s') \<and>
         (\<exists>t'. find (\<lambda>t. t_id t = ''t1'') (tasks s') = Some t' \<and>
               t_done t' \<and> \<not> t_has_problem t' \<and> t_problem_message t' = Some ''fixed'')) \<and>
   (\<exists>s'. problem_task_in_branch ex_store ex_alice 1 ''b1'' ''t2'' ''broken'' ex_now = Inr (True, s') \<and>
         (\<exists>t'. find (\<lambda>t. t_id t = ''t2'') (tasks s') = Some t' \<and>
               t_has_problem t' \<and> \<not> t_done t' \<and> t_problem_message t' = Some ''broken''))"
  using mark_sets_flags_and_message[THEN conjunct1, rule_format, OF ex_done_task]
        mark_sets_flags_and_message[THEN conjunct2, rule_format, OF ex_problem_task]
        ex_done_task ex_problem_task
  by blast

subsection \<open>parse_date\<close>

lemma parse_digits_numeral [simp]:
  "parse_digits (numeral k) acc s =
     (case s of [] \<Rightarrow> None
      | c # r \<Rightarrow> (case digit_val c of None \<Rightarrow> None
                  | Some v \<Rightarrow> parse_digits (pred_numeral k) (10 * acc + v) r))"
  by (cases s) (simp_all add: numeral_eq_Suc)

lemma parse_digits_one [simp]:
  "parse_digits (Suc 0) acc s =
     (case s of [] \<Rightarrow> None
      | c # r \<Rightarrow> (case digit_val c of None \<Rightarrow> None | Some v \<Rightarrow> Some (10 * acc + v, r)))"
  by (cases s) (simp_all split: option.splits)

lemmas lib_defs = parse_date_def parse_date_with_def fromisoformat_def strptime_def
  new_datetime_def valid_datetime_def days_in_month_def is_leap_def digit_val_def day2_def
  digit1_def space_digit1_def month2_def or_else_def parse_isoformat_time_def
  parse_hh_mm_ss_ff_def parse_fraction_def is_sign_def

lemma fromisoformat_empty: "fromisoformat [] = None"
  by (simp add: fromisoformat_def)

lemma strptime_dmy_empty: "strptime [] ''%d.%m.%Y'' = None"
  by (simp add: lib_defs)

text \<open>
  C8. For a string \<open>s\<close>, \<^verbatim>\<open>parse_date\<close> returns the ISO parse when
  \<^verbatim>\<open>fromisoformat\<close> succeeds, otherwise the parse with the format \<^verbatim>\<open>%d.%m.%Y\<close>
  when \<^verbatim>\<open>strptime\<close> succeeds, otherwise \<open>None\<close>; its result type has no error.
  The cascade holds for any behaviour of the two library calls on a non-empty string
  (first conjunct), and with the library models for every string (second conjunct).
  \<^verbatim>\<open>"2024-05-01T00:00:00"\<close> parses as ISO, \<^verbatim>\<open>"01.05.2024"\<close> is not ISO and parses
  as day 1, month 5, year 2024, and \<^verbatim>\<open>"not-a-date"\<close> yields \<open>None\<close>.
\<close>

theorem parse_date_iso_then_day_month_year:
  "(s \<noteq> [] \<longrightarrow>
      parse_date_with fromiso strp (Some s) =
        (case fromiso s of Some d \<Rightarrow> Some d | None \<Rightarrow> strp s ''%d.%m.%Y'')) \<and>
   parse_date (Some s) =
     (case fromisoformat s of Some d \<Rightarrow> Some d | None \<Rightarrow> strptime s ''%d.%m.%Y'') \<and>
   parse_date (Some ''2024-05-01T00:00:00'') =
     Some \<lparr>year = 2024, month = 5, day = 1, hour = 0, minute = 0, second = 0,
           microsecond = 0, tzinfo = None\<rparr> \<and>
   fromisoformat ''01.05.2024'' = None \<and>
   parse_date (Some ''01.05.2024'') =
     Some \<lparr>year = 2024, month = 5, day = 1, hour = 0, minute = 0, second = 0,
           microsecond = 0, tzinfo = None\<rparr> \<and>
   parse_date (Some ''not-a-date'') = None"
proof (intro conjI)
  show "s \<noteq> [] \<longrightarrow>
      parse_date_with fromiso strp (Some s) =
        (case fromiso s of Some d \<Rightarrow> Some d | None \<Rightarrow> strp s ''%d.%m.%Y'')"
    by (simp add: parse_date_with_def split: option.splits)
  show "parse_date (Some s) =
     (case fromisoformat s of Some d \<Rightarrow> Some d | None \<Rightarrow> strptime s ''%d.%m.%Y'')"
  proof (cases "s = []")
    case True
    then show ?thesis
      by (simp add: parse_date_def parse_date_with_def fromisoformat_empty strptime_dmy_empty)
  next
    case False
    then show ?thesis
      by (simp add: parse_date_def parse_date_with_def split: option.splits)
  qed
  show "parse_date (Some ''2024-05-01T00:00:00'') =
     Some \<lparr>year = 2024, month = 5, day = 1, hour = 0, minute = 0, second = 0,
           microsecond = 0, tzinfo = None\<rparr>"
    by (simp add: lib_defs)
  show "fromisoformat ''01.05.2024'' = None"
    by (simp add: lib_defs)
  show "parse_date (Some ''01.05.2024'') =
     Some \<lparr>year = 2024, month = 5, day = 1, hour = 0, minute = 0, second = 0,
           microsecond = 0, tzinfo = None\<rparr>"
    by (simp add: lib_defs)
  show "parse_date (Some ''not-a-date'') = None"
    by (simp add: lib_defs)
qed

theorem parse_date_iso_then_day_month_year_witness:
  "''01.05.2024'' \<noteq> [] \<and>
   parse_date_with fromisoformat strptime (Some ''01.05.2024'') =
     (case fromisoformat ''01.05.2024'' of
        Some d \<Rightarrow> Some d
      | None \<Rightarrow> strptime ''01.05.2024'' ''%d.%m.%Y'')"
  using parse_date_iso_then_day_month_year
    [THEN conjunct1, of "''01.05.2024''" fromisoformat strptime]
  by simp


subsection \<open>What markDone and markProblem leave alone\<close>

text \<open>
  C10, as the code has it. A successful \<^verbatim>\<open>done_task_in_branch\<close> or
  \<^verbatim>\<open>problem_task_in_branch\<close> leaves the users, projects, branches, skills and
  memberships as they were, keeps the tasks' ids and order, leaves every task of another
  id as it was, and changes of the target task only \<open>done\<close>, \<open>has_problem\<close>,
  \<open>problem_message\<close> and \<open>updated_at\<close>; \<open>updated_at\<close> becomes the time of the commit
  exactly when one of the three fields changed, through the column's
  \<^verbatim>\<open>onupdate=datetime.utcnow\<close>.
\<close>

theorem mark_changes_only_flags_message_and_updated_at:
  "(done_task_in_branch s u pid bid tid m now = Inr (r, s') \<or>
    problem_task_in_branch s u pid bid tid m now = Inr (r, s')) \<longrightarrow>
   users s' = users s \<and> projects s' = projects s \<and> branches s' = branches s \<and>
   skills s' = skills s \<and> user_project s' = user_project s \<and>
   map t_id (tasks s') = map t_id (tasks s) \<and>
   filter (\<lambda>t. t_id t \<noteq> tid) (tasks s') = filter (\<lambda>t. t_id t \<noteq> tid) (tasks s) \<and>
   (\<exists>t t'. find (\<lambda>t. t_id t = tid) (tasks s) = Some t \<and>
           find (\<lambda>t. t_id t = tid) (tasks s') = Some t' \<and>
           t' = t\<lparr>t_done := t_done t', t_has_problem := t_has_problem t',
                  t_problem_message := t_problem_message t',
                  t_updated_at := t_updated_at t'\<rparr> \<and>
           t_updated_at t' =
             (if t_done t' = t_done t \<and> t_has_problem t' = t_has_problem t \<and>
                 t_problem_message t' = t_problem_message t
              then t_updated_at t else Some now))"
proof (intro impI)
  assume a: "done_task_in_branch s u pid bid tid m now = Inr (r, s') \<or>
             problem_task_in_branch s u pid bid tid m now = Inr (r, s')"
  have "\<exists>t new. find (\<lambda>t. t_id t = tid) (tasks s) = Some t \<and>
          s' = s\<lparr>tasks := replace_task (flush_task now t new) (tasks s)\<rparr> \<and>
          (new = t\<lparr>t_done := True, t_has_problem := False, t_problem_message := Some m\<rparr> \<or>
           new = t\<lparr>t_has_problem := True, t_done := False, t_problem_message := Some m\<rparr>)"
  proof -
    {
      assume "done_task_in_branch s u pid bid tid m now = Inr (r, s')"
      then obtain t where "find (\<lambda>t. t_id t = tid) (tasks s) = Some t"
        and "s' = s\<lparr>tasks := replace_task
                  (flush_task now t (t\<lparr>t_done := True, t_has_problem := False,
                                       t_problem_message := Some m\<rparr>)) (tasks s)\<rparr>"
        by (rule done_task_success)
      then have ?thesis by blast
    }
    moreover
    {
      assume "problem_task_in_branch s u pid bid tid m now = Inr (r, s')"
      then obtain t where "find (\<lambda>t. t_id t = tid) (tasks s) = Some t"
        and "s' = s\<lparr>tasks := replace_task
                  (flush_task now t (t\<lparr>t_has_problem := True, t_done := False,
                                       t_problem_message := Some m\<rparr>)) (tasks s)\<rparr>"
        by (rule problem_task_success)
      then have ?thesis by blast
    }
    ultimately show ?thesis using a by blast
  qed
  then obtain t new where f: "find (\<lambda>t. t_id t = tid) (tasks s) = Some t"
    and s': "s' = s\<lparr>tasks := replace_task (flush_task now t new) (tasks s)\<rparr>"
    and new: "new = t\<lparr>t_done := True, t_has_problem := False, t_problem_message := Some m\<rparr> \<or>
              new = t\<lparr>t_has_problem := True, t_done := False, t_problem_message := Some m\<rparr>"
    by blast
  let ?t' = "flush_task now t new"
  have id: "t_id ?t' = tid"
    using find_task_id[OF f] new by (auto simp: flush_task_def)
  have f': "find (\<lambda>t. t_id t = tid) (tasks s') = Some ?t'"
    using find_replace_task[OF f id] s' by simp
  have others: "filter (\<lambda>t. t_id t \<noteq> tid) (tasks s') = filter (\<lambda>t. t_id t \<noteq> tid) (tasks s)"
    using filter_replace_task[of ?t' "tasks s"] id s' by simp
  have ids: "map t_id (tasks s') = map t_id (tasks s)"
    using s' by (simp add: map_id_replace_task)
  have rest: "users s' = users s \<and> projects s' = projects s \<and> branches s' = branches s \<and>
              skills s' = skills s \<and> user_project s' = user_project s"
    using s' by simp
  have fields: "?t' = t\<lparr>t_done := t_done ?t', t_has_problem := t_has_problem ?t',
                         t_problem_message := t_problem_message ?t',
                         t_updated_at := t_updated_at ?t'\<rparr>"
    using new by (cases t) (auto simp: flush_task_def)
  have stamp: "t_updated_at ?t' =
             (if t_done ?t' = t_done t \<and> t_has_problem ?t' = t_has_problem t \<and>
                 t_problem_message ?t' = t_problem_message t
              then t_updated_at t else Some now)"
    using new by (cases t) (auto simp: flush_task_def)
  show "users s' = users s \<and> projects s' = projects s \<and> branches s' = branches s \<and>
   skills s' = skills s \<and> user_project s' = user_project s \<and>
   map t_id (tasks s') = map t_id (tasks s) \<and>
   filter (\<lambda>t. t_id t \<noteq> tid) (tasks s') = filter (\<lambda>t. t_id t \<noteq> tid) (tasks s) \<and>
   (\<exists>t t'. find (\<lambda>t. t_id t = tid) (tasks s) = Some t \<and>
           find (\<lambda>t. t_id t = tid) (tasks s') = Some t' \<and>
           t' = t\<lparr>t_done := t_done t', t_has_problem := t_has_problem t',
                  t_problem_message := t_problem_message t',
                  t_updated_at := t_updated_at t'\<rparr> \<and>
           t_updated_at t' =
             (if t_done t' = t_done t \<and> t_has_problem t' = t_has_problem t \<and>
                 t_problem_message t' = t_problem_message t
              then t_updated_at t else Some now))"
    using rest ids others f f' fields stamp by blast
qed

theorem mark_changes_only_flags_message_and_updated_at_witness:
  "\<exists>s'. done_task_in_branch ex_store ex_alice 1 ''b1'' ''t1'' ''fixed'' ex_now = Inr (True, s') \<and>
     users s' = users ex_store \<and> projects s' = projects ex_store \<and>
     branches s' = branches ex_store \<and> skills s' = skills ex_store \<and>
     user_project s' = user_project ex_store \<and>
     map t_id (tasks s') = map t_id (tasks ex_store) \<and>
     filter (\<lambda>t. t_id t \<noteq> ''t1'') (tasks s') = filter (\<lambda>t. t_id t \<noteq> ''t1'') (tasks ex_store)"
  using mark_changes_only_flags_message_and_updated_at[rule_format, OF disjI1, OF ex_done_task]
    ex_done_task
  by blast

text \<open>The claim as it is stated, that no other field of the target task changes, fails
  on \<open>updated_at\<close>: marking \<open>t1\<close> done moves it from the creation time to the time of
  the commit.\<close>

theorem mark_done_moves_updated_at:
  "map_sum id (map t_updated_at \<circ> tasks \<circ> snd)
     (done_task_in_branch ex_store ex_alice 1 ''b1'' ''t1'' ''fixed'' ex_now) =
     Inr [Some ex_now, Some ex_created] \<and>
   map t_updated_at (tasks ex_store) = [Some ex_created, Some ex_created] \<and>
   ex_now \<noteq> ex_created"
  by (simp add: ex_done_task) (simp add: ex_defs)


subsection \<open>add_task and edit_task_in_branch\<close>

lemma map_sum_parse_index:
  "map_sum id parse_date (dict_index f) = Inr x \<Longrightarrow> x = parse_date (dict_get f)"
  by (cases f) (simp_all add: dict_index_def dict_get_def)

lemma to_timestamp_naive: "tzinfo (to_timestamp s d) = None"
  by (simp add: to_timestamp_def)

lemma to_timestamp_of_naive: "tzinfo d = None \<Longrightarrow> to_timestamp s d = d"
  by (simp add: to_timestamp_def)

lemma add_task_dates:
  assumes "add_task s u pid bid td uuid4 now = Inr (t, s')"
  shows "t_start_date t =
           (if truthy (dict_get (td_startDate td))
            then map_option (to_timestamp s) (parse_date (dict_get (td_startDate td)))
            else None)"
    and "t_end_date t =
           (if truthy (dict_get (td_endDate td))
            then map_option (to_timestamp s) (parse_date (dict_get (td_startDate td)))
            else None)"
  using assms unfolding add_task_def
  by (auto simp: Let_def inserted_task_def split: option.splits if_splits sum.splits
      dest!: map_sum_parse_index)

lemma ex_dates:
  "parse_date (Some ''01.05.2024'') =
     Some \<lparr>year = 2024, month = 5, day = 1, hour = 0, minute = 0, second = 0,
           microsecond = 0, tzinfo = None\<rparr>"
  "parse_date (Some ''02.06.2024'') =
     Some \<lparr>year = 2024, month = 6, day = 2, hour = 0, minute = 0, second = 0,
           microsecond = 0, tzinfo = None\<rparr>"
  by (simp_all add: lib_defs)

text \<open>
  C4. The claim: the stored end date of a new task is the parse of the request's
  \<^verbatim>\<open>endDate\<close>. \<^verbatim>\<open>add_task\<close> parses \<^verbatim>\<open>task_data["startDate"]\<close> for it: with
  \<^verbatim>\<open>startDate = "01.05.2024"\<close> and \<^verbatim>\<open>endDate = "02.06.2024"\<close> the new task ends on
  1 May 2024, and with an \<^verbatim>\<open>endDate\<close> and no \<^verbatim>\<open>startDate\<close> the call ends in
  status 500 (\<^verbatim>\<open>KeyError\<close>).
\<close>

theorem add_task_end_date_parsed_from_start_input:
  "map_sum id (t_end_date \<circ> fst) (add_task ex_store ex_alice 1 ''b1'' ex_task_data ''t3'' ex_now) =
     Inr (parse_date (Some ''01.05.2024'')) \<and>
   dict_get (td_endDate ex_task_data) = Some ''02.06.2024'' \<and>
   parse_date (Some ''01.05.2024'') \<noteq> parse_date (Some ''02.06.2024'') \<and>
   add_task ex_store ex_alice 1 ''b1'' ex_end_only_data ''t3'' ex_now =
     Inl HTTP_500_INTERNAL_SERVER_ERROR"
proof (intro conjI)
  show "map_sum id (t_end_date \<circ> fst)
          (add_task ex_store ex_alice 1 ''b1'' ex_task_data ''t3'' ex_now) =
        Inr (parse_date (Some ''01.05.2024''))"
    by (simp add: add_task_def ex_defs ex_task_data_def auth_defs dict_get_def dict_index_def
        dict_get_flag_def truthy_def task_fk_ok_def Let_def inserted_task_def ex_dates
        to_timestamp_def)
  show "dict_get (td_endDate ex_task_data) = Some ''02.06.2024''"
    by (simp add: ex_task_data_def dict_get_def)
  show "parse_date (Some ''01.05.2024'') \<noteq> parse_date (Some ''02.06.2024'')"
    by (simp add: ex_dates)
  show "add_task ex_store ex_alice 1 ''b1'' ex_end_only_data ''t3'' ex_now =
          Inl HTTP_500_INTERNAL_SERVER_ERROR"
    by (simp add: add_task_def ex_defs ex_task_data_def ex_end_only_data_def auth_defs
        dict_get_def dict_index_def truthy_def)
qed

lemma flush_task_keeps:
  "t_id (flush_task now old new) = t_id new"
  "t_name (flush_task now old new) = t_name new"
  "t_description (flush_task now old new) = t_description new"
  "t_parent_id (flush_task now old new) = t_parent_id new"
  "t_branch_id (flush_task now old new) = t_branch_id new"
  "t_assigned_to_id (flush_task now old new) = t_assigned_to_id new"
  "t_created_at (flush_task now old new) = t_created_at new"
  "t_start_date (flush_task now old new) = t_start_date new"
  "t_end_date (flush_task now old new) = t_end_date new"
  "t_skill_id (flush_task now old new) = t_skill_id new"
  "t_file (flush_task now old new) = t_file new"
  by (cases "new = old"; simp add: flush_task_def)+

lemma updated_task_keeps:
  "t_id (updated_task s old new) = t_id new"
  "t_name (updated_task s old new) = t_name new"
  "t_description (updated_task s old new) = t_description new"
  "t_parent_id (updated_task s old new) = t_parent_id new"
  "t_branch_id (updated_task s old new) = t_branch_id new"
  "t_assigned_to_id (updated_task s old new) = t_assigned_to_id new"
  "t_created_at (updated_task s old new) = t_created_at new"
  "t_updated_at (updated_task s old new) = t_updated_at new"
  "t_done (updated_task s old new) = t_done new"
  "t_has_problem (updated_task s old new) = t_has_problem new"
  "t_problem_message (updated_task s old new) = t_problem_message new"
  "t_skill_id (updated_task s old new) = t_skill_id new"
  "t_file (updated_task s old new) = t_file new"
  by (simp_all add: updated_task_def)

lemma updated_task_dates:
  "t_start_date (updated_task s old new) =
     (if t_start_date new = t_start_date old then t_start_date old
      else map_option (to_timestamp s) (t_start_date new))"
  "t_end_date (updated_task s old new) =
     (if t_end_date new = t_end_date old then t_end_date old
      else map_option (to_timestamp s) (t_end_date new))"
  by (simp_all add: updated_task_def)

lemma edit_task_success:
  assumes "edit_task_in_branch s u pid bid tid td now = Inr (r, s')"
  obtains t title description where "find (\<lambda>t. t_id t = tid) (tasks s) = Some t"
    and "dict_index (td_title td) = Inr title"
    and "dict_index (td_description td) = Inr description"
    and "s' = s\<lparr>tasks := replace_task
                 (updated_task s t (flush_task now t (edited_task td t title description)))
                 (tasks s)\<rparr>"
  using assms unfolding edit_task_in_branch_def
  by (auto split: option.splits if_splits sum.splits)

lemma edited_task_fields:
  "t_start_date (edited_task td t title description) =
     (if truthy (dict_get (td_startDate td))
      then parse_date (dict_get (td_startDate td)) else t_start_date t)"
  "t_end_date (edited_task td t title description) =
     (if truthy (dict_get (td_endDate td))
      then parse_date (dict_get (td_endDate td)) else t_end_date t)"
  "t_name (edited_task td t title description) = title"
  "t_description (edited_task td t title description) = description"
  "t_assigned_to_id (edited_task td t title description) = dict_get (td_assignedTo td)"
  "t_skill_id (edited_task td t title description) = dict_get (td_skillId td)"
  "t_file (edited_task td t title description) = dict_get (td_file td)"
  "t_problem_message (edited_task td t title description) = dict_get (td_problemMessage td)"
  "t_id (edited_task td t title description) = t_id t"
  "t_parent_id (edited_task td t title description) = t_parent_id t"
  "t_branch_id (edited_task td t title description) = t_branch_id t"
  "t_created_at (edited_task td t title description) = t_created_at t"
  "t_done (edited_task td t title description) = t_done t"
  "t_has_problem (edited_task td t title description) = t_has_problem t"
  by (simp_all add: edited_task_def Let_def)

text \<open>
  C5, as the code has it. After a successful \<^verbatim>\<open>edit_task_in_branch\<close> the start and the
  end date keep their stored values when the request's \<^verbatim>\<open>startDate\<close>, \<^verbatim>\<open>endDate\<close> is
  absent, null or empty (or parses to the stored value), and are otherwise the parse of
  the input as the column holds it, which is without a UTC offset; the title and the
  description are the request's; \<^verbatim>\<open>assigned_to_id\<close>, \<^verbatim>\<open>skill_id\<close>, \<^verbatim>\<open>file\<close> and
  \<^verbatim>\<open>problem_message\<close> are what \<^verbatim>\<open>task_data.get\<close> gives, which is \<open>None\<close> for a key that
  is not supplied; the id, the parent, the branch, \<^verbatim>\<open>created_at\<close>, \<^verbatim>\<open>done\<close> and
  \<^verbatim>\<open>has_problem\<close> are not modified.
\<close>

theorem edit_task_keeps_dates_and_overwrites_optional_fields:
  "edit_task_in_branch s u pid bid tid td now = Inr (r, s') \<longrightarrow>
   (\<exists>t t'. find (\<lambda>t. t_id t = tid) (tasks s) = Some t \<and>
           find (\<lambda>t. t_id t = tid) (tasks s') = Some t' \<and>
           t_start_date t' =
             (if truthy (dict_get (td_startDate td)) \<and>
                 parse_date (dict_get (td_startDate td)) \<noteq> t_start_date t
              then map_option (to_timestamp s) (parse_date (dict_get (td_startDate td)))
              else t_start_date t) \<and>
           t_end_date t' =
             (if truthy (dict_get (td_endDate td)) \<and>
                 parse_date (dict_get (td_endDate td)) \<noteq> t_end_date t
              then map_option (to_timestamp s) (parse_date (dict_get (td_endDate td)))
              else t_end_date t) \<and>
           (\<forall>d. truthy (dict_get (td_startDate td)) \<and>
                parse_date (dict_get (td_startDate td)) \<noteq> t_start_date t \<and>
                t_start_date t' = Some d \<longrightarrow> tzinfo d = None) \<and>
           (\<forall>d. truthy (dict_get (td_endDate td)) \<and>
                parse_date (dict_get (td_endDate td)) \<noteq> t_end_date t \<and>
                t_end_date t' = Some d \<longrightarrow> tzinfo d = None) \<and>
           dict_index (td_title td) = Inr (t_name t') \<and>
           dict_index (td_description td) = Inr (t_description t') \<and>
           t_assigned_to_id t' = dict_get (td_assignedTo td) \<and>
           t_skill_id t' = dict_get (td_skillId td) \<and>
           t_file t' = dict_get (td_file td) \<and>
           t_problem_message t' = dict_get (td_problemMessage td) \<and>
           t_id t' = t_id t \<and> t_parent_id t' = t_parent_id t \<and>
           t_branch_id t' = t_branch_id t \<and> t_created_at t' = t_created_at t \<and>
           t_done t' = t_done t \<and> t_has_problem t' = t_has_problem t)"
proof
  assume "edit_task_in_branch s u pid bid tid td now = Inr (r, s')"
  then obtain t title description where f: "find (\<lambda>t. t_id t = tid) (tasks s) = Some t"
    and ti: "dict_index (td_title td) = Inr title"
    and de: "dict_index (td_description td) = Inr description"
    and s': "s' = s\<lparr>tasks := replace_task
                 (updated_task s t (flush_task now t (edited_task td t title description)))
                 (tasks s)\<rparr>"
    by (rule edit_task_success)
  define t' where "t' = updated_task s t (flush_task now t (edited_task td t title description))"
  have id: "t_id t' = tid"
    using find_task_id[OF f]
    by (simp add: t'_def updated_task_keeps flush_task_keeps edited_task_fields)
  have "tasks s' = replace_task t' (tasks s)"
    using s' by (simp add: t'_def)
  then have f': "find (\<lambda>t. t_id t = tid) (tasks s') = Some t'"
    using find_replace_task[OF f id] by simp
  have sd: "t_start_date t' =
             (if truthy (dict_get (td_startDate td)) \<and>
                 parse_date (dict_get (td_startDate td)) \<noteq> t_start_date t
              then map_option (to_timestamp s) (parse_date (dict_get (td_startDate td)))
              else t_start_date t)"
    by (simp add: t'_def updated_task_dates flush_task_keeps edited_task_fields)
  have ed: "t_end_date t' =
             (if truthy (dict_get (td_endDate td)) \<and>
                 parse_date (dict_get (td_endDate td)) \<noteq> t_end_date t
              then map_option (to_timestamp s) (parse_date (dict_get (td_endDate td)))
              else t_end_date t)"
    by (simp add: t'_def updated_task_dates flush_task_keeps edited_task_fields)
  have sn: "\<forall>d. truthy (dict_get (td_startDate td)) \<and>
                parse_date (dict_get (td_startDate td)) \<noteq> t_start_date t \<and>
                t_start_date t' = Some d \<longrightarrow> tzinfo d = None"
    unfolding sd by (auto simp: to_timestamp_naive)
  have en: "\<forall>d. truthy (dict_get (td_endDate td)) \<and>
                parse_date (dict_get (td_endDate td)) \<noteq> t_end_date t \<and>
                t_end_date t' = Some d \<longrightarrow> tzinfo d = None"
    unfolding ed by (auto simp: to_timestamp_naive)
  have rest: "dict_index (td_title td) = Inr (t_name t') \<and>
           dict_index (td_description td) = Inr (t_description t') \<and>
           t_assigned_to_id t' = dict_get (td_assignedTo td) \<and>
           t_skill_id t' = dict_get (td_skillId td) \<and>
           t_file t' = dict_get (td_file td) \<and>
           t_problem_message t' = dict_get (td_problemMessage td) \<and>
           t_id t' = t_id t \<and> t_parent_id t' = t_parent_id t \<and>
           t_branch_id t' = t_branch_id t \<and> t_created_at t' = t_created_at t \<and>
           t_done t' = t_done t \<and> t_has_problem t' = t_has_problem t"
    using ti de
    by (simp add: t'_def updated_task_keeps flush_task_keeps flush_task_flags edited_task_fields)
  show "\<exists>t t'. find (\<lambda>t. t_id t = tid) (tasks s) = Some t \<and>
           find (\<lambda>t. t_id t = tid) (tasks s') = Some t' \<and>
           t_start_date t' =
             (if truthy (dict_get (td_startDate td)) \<and>
                 parse_date (dict_get (td_startDate td)) \<noteq> t_start_date t
              then map_option (to_timestamp s) (parse_date (dict_get (td_startDate td)))
              else t_start_date t) \<and>
           t_end_date t' =
             (if truthy (dict_get (td_endDate td)) \<and>
                 parse_date (dict_get (td_endDate td)) \<noteq> t_end_date t
              then map_option (to_timestamp s) (parse_date (dict_get (td_endDate td)))
              else t_end_date t) \<and>
           (\<forall>d. truthy (dict_get (td_startDate td)) \<and>
                parse_date (dict_get (td_startDate td)) \<noteq> t_start_date t \<and>
                t_start_date t' = Some d \<longrightarrow> tzinfo d = None) \<and>
           (\<forall>d. truthy (dict_get (td_endDate td)) \<and>
                parse_date (dict_get (td_endDate td)) \<noteq> t_end_date t \<and>
                t_end_date t' = Some d \<longrightarrow> tzinfo d = None) \<and>
           dict_index (td_title td) = Inr (t_name t') \<and>
           dict_index (td_description td) = Inr (t_description t') \<and>
           t_assigned_to_id t' = dict_get (td_assignedTo td) \<and>
           t_skill_id t' = dict_get (td_skillId td) \<and>
           t_file t' = dict_get (td_file td) \<and>
           t_problem_message t' = dict_get (td_problemMessage td) \<and>
           t_id t' = t_id t \<and> t_parent_id t' = t_parent_id t \<and>
           t_branch_id t' = t_branch_id t \<and> t_created_at t' = t_created_at t \<and>
           t_done t' = t_done t \<and> t_has_problem t' = t_has_problem t"
    by (intro exI[of _ t] exI[of _ t'] conjI f f' sd ed sn en rest[THEN conjunct1]
        rest[THEN conjunct2])
qed

lemma ex_edit_task:
  "edit_task_in_branch ex_store ex_alice 1 ''b1'' ''t1'' ex_edit_data ex_now =
     Inr (True, ex_store\<lparr>tasks :=
       [ex_task\<lparr>t_name := Some ''T1 renamed'', t_assigned_to_id := None, t_skill_id := None,
                t_file := None, t_problem_message := None, t_updated_at := Some ex_now\<rparr>,
        ex_task2]\<rparr>)"
  by (simp add: edit_task_in_branch_def edited_task_def ex_defs ex_edit_data_def auth_defs
      dict_get_def dict_index_def truthy_def task_fk_ok_def Let_def replace_task_def
      flush_task_def updated_task_def)

text \<open>An edit of \<open>t1\<close> with the start date \<^verbatim>\<open>2024-05-01T10:30:00+05:00\<close>: the parse is
  aware, the row is not.\<close>

lemma ex_offset_date:
  "parse_date (Some ''2024-05-01T10:30:00+05:00'') =
     Some \<lparr>year = 2024, month = 5, day = 1, hour = 10, minute = 30, second = 0,
           microsecond = 0, tzinfo = Some 18000000000\<rparr>"
  by (simp add: lib_defs)

lemma ex_offset_edit:
  "edit_task_in_branch ex_store ex_alice 1 ''b1'' ''t1'' ex_offset_data ex_now =
     Inr (True, ex_store\<lparr>tasks :=
       [ex_task\<lparr>t_name := Some ''T1 renamed'', t_assigned_to_id := None, t_skill_id := None,
                t_file := None, t_problem_message := None, t_updated_at := Some ex_now,
                t_start_date :=
                  Some \<lparr>year = 2024, month = 5, day = 1, hour = 10, minute = 30, second = 0,
                        microsecond = 0, tzinfo = None\<rparr>\<rparr>,
        ex_task2]\<rparr>)"
proof -
  have a: "dict_get (td_startDate ex_offset_data) = Some ''2024-05-01T10:30:00+05:00''"
    "dict_get (td_endDate ex_offset_data) = None"
    "dict_index (td_title ex_offset_data) = Inr (Some ''T1 renamed'')"
    "dict_index (td_description ex_offset_data) = Inr (Some ''do it'')"
    "dict_get (td_assignedTo ex_offset_data) = None" "dict_get (td_skillId ex_offset_data) = None"
    "dict_get (td_file ex_offset_data) = None" "dict_get (td_problemMessage ex_offset_data) = None"
    by (simp_all add: ex_offset_data_def ex_edit_data_def dict_get_def dict_index_def)
  show ?thesis
    by (simp add: edit_task_in_branch_def edited_task_def a ex_offset_date truthy_def
        ex_defs auth_defs task_fk_ok_def Let_def replace_task_def flush_task_def
        updated_task_def to_timestamp_def)
qed

theorem edit_task_keeps_dates_and_overwrites_optional_fields_witness:
  "(\<exists>s'. edit_task_in_branch ex_store ex_alice 1 ''b1'' ''t1'' ex_edit_data ex_now = Inr (True, s') \<and>
     (\<exists>t t'. find (\<lambda>t. t_id t = ''t1'') (tasks ex_store) = Some t \<and>
           find (\<lambda>t. t_id t = ''t1'') (tasks s') = Some t' \<and>
           t_start_date t' = t_start_date t \<and> t_end_date t' = t_end_date t \<and>
           t_assigned_to_id t' = None \<and> t_skill_id t' = None \<and> t_file t' = None \<and>
           t_problem_message t' = None)) \<and>
   (\<exists>s'. edit_task_in_branch ex_store ex_alice 1 ''b1'' ''t1'' ex_offset_data ex_now = Inr (True, s') \<and>
     (\<exists>t t' d. find (\<lambda>t. t_id t = ''t1'') (tasks ex_store) = Some t \<and>
           find (\<lambda>t. t_id t = ''t1'') (tasks s') = Some t' \<and>
           tzinfo (the (parse_date (Some ''2024-05-01T10:30:00+05:00''))) = Some 18000000000 \<and>
           t_start_date t' = Some d \<and> tzinfo d = None \<and> t_end_date t' = t_end_date t))"
proof -
  have a: "truthy (dict_get (td_startDate ex_edit_data)) = False"
    "truthy (dict_get (td_endDate ex_edit_data)) = False"
    "dict_get (td_assignedTo ex_edit_data) = None" "dict_get (td_skillId ex_edit_data) = None"
    "dict_get (td_file ex_edit_data) = None" "dict_get (td_problemMessage ex_edit_data) = None"
    by (simp_all add: ex_edit_data_def dict_get_def truthy_def)
  note h = edit_task_keeps_dates_and_overwrites_optional_fields
             [rule_format, OF ex_edit_task, unfolded a if_False simp_thms]
  have b: "dict_get (td_startDate ex_offset_data) = Some ''2024-05-01T10:30:00+05:00''"
    "truthy (Some ''2024-05-01T10:30:00+05:00'') = True"
    "truthy (dict_get (td_endDate ex_offset_data)) = False"
    by (simp_all add: ex_offset_data_def ex_edit_data_def dict_get_def truthy_def)
  note g = edit_task_keeps_dates_and_overwrites_optional_fields
             [rule_format, OF ex_offset_edit, unfolded b if_False simp_thms]
  have c: "\<And>t. find (\<lambda>t. t_id t = ''t1'') (tasks ex_store) = Some t \<Longrightarrow>
             parse_date (Some ''2024-05-01T10:30:00+05:00'') \<noteq> t_start_date t"
    by (simp add: ex_offset_date ex_defs)
  have d: "tzinfo (the (parse_date (Some ''2024-05-01T10:30:00+05:00''))) = Some 18000000000"
    by (simp add: ex_offset_date)
  from g obtain t t' where g1: "find (\<lambda>t. t_id t = ''t1'') (tasks ex_store) = Some t"
    and g2: "find (\<lambda>t. t_id t = ''t1'')
               (tasks (ex_store\<lparr>tasks :=
       [ex_task\<lparr>t_name := Some ''T1 renamed'', t_assigned_to_id := None, t_skill_id := None,
                t_file := None, t_problem_message := None, t_updated_at := Some ex_now,
                t_start_date :=
                  Some \<lparr>year = 2024, month = 5, day = 1, hour = 10, minute = 30, second = 0,
                        microsecond = 0, tzinfo = None\<rparr>\<rparr>,
        ex_task2]\<rparr>)) = Some t'"
    and g3: "t_start_date t' =
               (if parse_date (Some ''2024-05-01T10:30:00+05:00'') \<noteq> t_start_date t
                then map_option (to_timestamp ex_store)
                       (parse_date (Some ''2024-05-01T10:30:00+05:00''))
                else t_start_date t)"
    and g4: "t_end_date t' = t_end_date t"
    by blast
  have "\<exists>d. t_start_date t' = Some d \<and> tzinfo d = None"
    using g3 c[OF g1] by (simp add: ex_offset_date to_timestamp_def)
  with g1 g2 g4 d ex_offset_edit
  have second: "\<exists>s'. edit_task_in_branch ex_store ex_alice 1 ''b1'' ''t1'' ex_offset_data ex_now =
                    Inr (True, s') \<and>
     (\<exists>t t' d. find (\<lambda>t. t_id t = ''t1'') (tasks ex_store) = Some t \<and>
           find (\<lambda>t. t_id t = ''t1'') (tasks s') = Some t' \<and>
           tzinfo (the (parse_date (Some ''2024-05-01T10:30:00+05:00''))) = Some 18000000000 \<and>
           t_start_date t' = Some d \<and> tzinfo d = None \<and> t_end_date t' = t_end_date t)"
    by blast
  have first: "\<exists>s'. edit_task_in_branch ex_store ex_alice 1 ''b1'' ''t1'' ex_edit_data ex_now =
                    Inr (True, s') \<and>
     (\<exists>t t'. find (\<lambda>t. t_id t = ''t1'') (tasks ex_store) = Some t \<and>
           find (\<lambda>t. t_id t = ''t1'') (tasks s') = Some t' \<and>
           t_start_date t' = t_start_date t \<and> t_end_date t' = t_end_date t \<and>
           t_assigned_to_id t' = None \<and> t_skill_id t' = None \<and> t_file t' = None \<and>
           t_problem_message t' = None)"
    using h ex_edit_task by blast
  from first second show ?thesis by (rule conjI)
qed

text \<open>The claim as it is stated, that every field the request does not supply keeps its
  stored value, fails on the four fields read with \<^verbatim>\<open>task_data.get\<close>: an edit that
  supplies the title and the description only clears the assignee, the skill, the file and
  the problem message of \<open>t1\<close>.\<close>

theorem edit_task_clears_unsupplied_fields:
  "edit_task_in_branch ex_store ex_alice 1 ''b1'' ''t1'' ex_edit_data ex_now =
     Inr (True, ex_store\<lparr>tasks :=
       [ex_task\<lparr>t_name := Some ''T1 renamed'', t_assigned_to_id := None, t_skill_id := None,
                t_file := None, t_problem_message := None, t_updated_at := Some ex_now\<rparr>,
        ex_task2]\<rparr>) \<and>
   td_assignedTo ex_edit_data = Absent \<and> t_assigned_to_id ex_task = Some 1 \<and>
   td_skillId ex_edit_data = Absent \<and> t_skill_id ex_task = Some 7 \<and>
   td_file ex_edit_data = Absent \<and> t_file ex_task = Some ''/media/plan.txt'' \<and>
   td_problemMessage ex_edit_data = Absent \<and> t_problem_message ex_task = Some ''stuck''"
  by (simp add: ex_edit_task) (simp add: ex_edit_data_def ex_task_def)


subsection \<open>Not found before forbidden\<close>

lemma find_project_id: "find (\<lambda>p. p_id p = pid) ps = Some p \<Longrightarrow> p_id p = pid"
  by (induction ps) (auto split: if_splits)

lemma find_branch_id: "find (\<lambda>b. b_id b = bid) bs = Some b \<Longrightarrow> b_id b = bid"
  by (induction bs) (auto split: if_splits)

lemma dict_index_Inl: "dict_index f = Inl e \<Longrightarrow> e = HTTP_500_INTERNAL_SERVER_ERROR"
  by (cases f) (simp_all add: dict_index_def)

lemma dict_index_Value [simp]: "dict_index (Value v) = Inr (Some v)"
  by (simp add: dict_index_def)

text \<open>
  C9, as the code has it. \<^verbatim>\<open>add_task\<close> answers 404 when the branch id is absent or
  names a branch of another project than the path's; the four handlers of a task answer
  404 when the task id is absent or names a task of another branch than the path's. In
  both cases the acting user is arbitrary: the answer is given before the membership
  check.
\<close>

theorem not_found_for_absent_or_foreign_target:
  "((find (\<lambda>b. b_id b = bid) (branches s) = None \<or>
     (\<exists>b. find (\<lambda>b. b_id b = bid) (branches s) = Some b \<and> b_project_id b \<noteq> Some pid)) \<longrightarrow>
    add_task s u pid bid td uuid4 now = Inl HTTP_404_NOT_FOUND) \<and>
   ((find (\<lambda>t. t_id t = tid) (tasks s) = None \<or>
     (\<exists>t. find (\<lambda>t. t_id t = tid) (tasks s) = Some t \<and> t_branch_id t \<noteq> Some bid)) \<longrightarrow>
    edit_task_in_branch s u pid bid tid td now = Inl HTTP_404_NOT_FOUND \<and>
    delete_task_in_branch s u pid bid tid td now = Inl HTTP_404_NOT_FOUND \<and>
    done_task_in_branch s u pid bid tid m now = Inl HTTP_404_NOT_FOUND \<and>
    problem_task_in_branch s u pid bid tid m now = Inl HTTP_404_NOT_FOUND)"
  by (auto simp: add_task_def edit_task_in_branch_def delete_task_in_branch_def
      done_task_in_branch_def problem_task_in_branch_def)

theorem not_found_for_absent_or_foreign_target_witness:
  "find (\<lambda>b. b_id b = ''b9'') (branches ex_store) = None \<and>
   add_task ex_store ex_bob 1 ''b9'' ex_task_data ''t3'' ex_now = Inl HTTP_404_NOT_FOUND \<and>
   (\<exists>b. find (\<lambda>b. b_id b = ''b1'') (branches ex_store) = Some b \<and> b_project_id b \<noteq> Some 2) \<and>
   add_task ex_store ex_alice 2 ''b1'' ex_task_data ''t3'' ex_now = Inl HTTP_404_NOT_FOUND \<and>
   find (\<lambda>t. t_id t = ''t9'') (tasks ex_store) = None \<and>
   done_task_in_branch ex_store ex_bob 1 ''b1'' ''t9'' ''fixed'' ex_now = Inl HTTP_404_NOT_FOUND \<and>
   (\<exists>t. find (\<lambda>t. t_id t = ''t1'') (tasks ex_store) = Some t \<and> t_branch_id t \<noteq> Some ''b9'') \<and>
   edit_task_in_branch ex_store ex_bob 1 ''b9'' ''t1'' ex_edit_data ex_now = Inl HTTP_404_NOT_FOUND \<and>
   delete_task_in_branch ex_store ex_bob 1 ''b9'' ''t1'' ex_edit_data ex_now = Inl HTTP_404_NOT_FOUND \<and>
   done_task_in_branch ex_store ex_bob 1 ''b9'' ''t1'' ''fixed'' ex_now = Inl HTTP_404_NOT_FOUND \<and>
   problem_task_in_branch ex_store ex_bob 1 ''b9'' ''t1'' ''broken'' ex_now = Inl HTTP_404_NOT_FOUND"
proof -
  have b9: "find (\<lambda>b. b_id b = ''b9'') (branches ex_store) = None"
    by (simp add: ex_defs)
  have b1: "\<exists>b. find (\<lambda>b. b_id b = ''b1'') (branches ex_store) = Some b \<and> b_project_id b \<noteq> Some 2"
    by (simp add: ex_defs)
  have t9: "find (\<lambda>t. t_id t = ''t9'') (tasks ex_store) = None"
    by (simp add: ex_defs)
  have t1: "\<exists>t. find (\<lambda>t. t_id t = ''t1'') (tasks ex_store) = Some t \<and> t_branch_id t \<noteq> Some ''b9''"
    by (simp add: ex_defs)
  note a = not_found_for_absent_or_foreign_target[THEN conjunct1, rule_format]
  note b = not_found_for_absent_or_foreign_target[THEN conjunct2, rule_format]
  show ?thesis
    using b9 b1 t9 t1 a[OF disjI1, OF b9] a[OF disjI2, OF b1] b[OF disjI1, OF t9]
      b[OF disjI2, OF t1]
    by blast
qed

text \<open>The claim as it is stated covers every task operation called with a branch id
  that does not belong to the given project. The handlers of a task do not read the
  path's project id: branch \<open>b1\<close> belongs to project 1, and on the path of project 2 Bob,
  who is a member of project 2 only, gets 403 from all four, not 404.\<close>

theorem task_handlers_ignore_path_project:
  "find (\<lambda>b. b_id b = ''b1'') (branches ex_store) = Some ex_branch \<and>
   b_project_id ex_branch = Some 1 \<and>
   edit_task_in_branch ex_store ex_bob 2 ''b1'' ''t1'' ex_edit_data ex_now = Inl HTTP_403_FORBIDDEN \<and>
   delete_task_in_branch ex_store ex_bob 2 ''b1'' ''t1'' ex_edit_data ex_now = Inl HTTP_403_FORBIDDEN \<and>
   done_task_in_branch ex_store ex_bob 2 ''b1'' ''t1'' ''fixed'' ex_now = Inl HTTP_403_FORBIDDEN \<and>
   problem_task_in_branch ex_store ex_bob 2 ''b1'' ''t1'' ''broken'' ex_now = Inl HTTP_403_FORBIDDEN"
  by (simp add: edit_task_in_branch_def delete_task_in_branch_def done_task_in_branch_def
      problem_task_in_branch_def ex_defs auth_defs)


subsection \<open>Membership and the 403 answer\<close>

lemma count_tasks_Inl:
  "count_tasks now k st ts = Inl e \<Longrightarrow> e = HTTP_500_INTERNAL_SERVER_ERROR"
  by (induction ts arbitrary: k st) (auto simp: Let_def split: option.splits)

lemma delayed_tasks_count_Inl:
  "delayed_tasks_count now k ts = Inl e \<Longrightarrow> e = HTTP_500_INTERNAL_SERVER_ERROR"
  by (induction ts arbitrary: k e)
     (auto split: option.splits if_splits sum.splits prod.splits)

lemma branch_statistics_Inl:
  "branch_statistics now k ts = Inl e \<Longrightarrow> e = HTTP_500_INTERNAL_SERVER_ERROR"
  by (auto simp: branch_statistics_def split: sum.splits prod.splits
      dest: delayed_tasks_count_Inl)

lemma branch_loop_Inl:
  "branch_loop s now k st bs = Inl e \<Longrightarrow> e = HTTP_500_INTERNAL_SERVER_ERROR"
  by (induction bs arbitrary: k st e)
     (auto simp: Let_def split: sum.splits prod.splits
      dest: count_tasks_Inl branch_statistics_Inl)

text \<open>A non-member of the owning project gets 403.\<close>

lemma add_branch_forbidden:
  "find (\<lambda>p. p_id p = pid) (projects s) \<noteq> None \<Longrightarrow> \<not> in_members u (members s pid) \<Longrightarrow>
   add_branch s u pid bd uuid4 now = Inl HTTP_403_FORBIDDEN"
  by (auto simp: add_branch_def dest: find_project_id)

lemma get_project_info_forbidden:
  "find (\<lambda>p. p_id p = pid) (projects s) \<noteq> None \<Longrightarrow> \<not> in_members u (members s pid) \<Longrightarrow>
   get_project_info s u pid clock = Inl HTTP_403_FORBIDDEN"
  by (auto simp: get_project_info_def dest: find_project_id)

lemma branch_in_projectD:
  assumes "branch_in_project s bid pid"
  obtains b p where "find (\<lambda>b. b_id b = bid) (branches s) = Some b"
    and "b_project_id b = Some pid" and "branch_project s b = Some p" and "p_id p = pid"
  using assms
  by (auto simp: branch_in_project_def branch_project_def split: option.splits
      dest: find_project_id)

lemma task_in_projectD:
  assumes "task_in_project s tid bid pid"
  obtains t p where "find (\<lambda>t. t_id t = tid) (tasks s) = Some t"
    and "t_branch_id t = Some bid" and "task_project s t = Some p" and "p_id p = pid"
proof -
  from assms obtain t where t: "find (\<lambda>t. t_id t = tid) (tasks s) = Some t"
    "t_branch_id t = Some bid" and bp: "branch_in_project s bid pid"
    by (auto simp: task_in_project_def split: option.splits)
  from bp obtain b p where "find (\<lambda>b. b_id b = bid) (branches s) = Some b"
    and "branch_project s b = Some p" and "p_id p = pid"
    by (rule branch_in_projectD)
  with t have tp: "task_project s t = Some p"
    by (simp add: task_project_def task_branch_def)
  show thesis
    using that[OF t(1) t(2) tp \<open>p_id p = pid\<close>] .
qed

lemma branch_handlers_forbidden:
  assumes "branch_in_project s bid pid" and "\<not> in_members u (members s pid)"
  shows "bd_id bd = Value bid \<Longrightarrow> edit_project_branch s u pid bd = Inl HTTP_403_FORBIDDEN"
    and "bd_branchId bd = Value bid \<Longrightarrow>
         delete_project_branch s u pid bd now = Inl HTTP_403_FORBIDDEN"
    and "add_task s u pid bid td uuid4 now = Inl HTTP_403_FORBIDDEN"
proof -
  from assms(1) obtain b p where b: "find (\<lambda>b. b_id b = bid) (branches s) = Some b"
    "b_project_id b = Some pid" "branch_project s b = Some p" "p_id p = pid"
    by (rule branch_in_projectD)
  show "bd_id bd = Value bid \<Longrightarrow> edit_project_branch s u pid bd = Inl HTTP_403_FORBIDDEN"
    using b assms(2) by (simp add: edit_project_branch_def)
  show "bd_branchId bd = Value bid \<Longrightarrow>
         delete_project_branch s u pid bd now = Inl HTTP_403_FORBIDDEN"
    using b assms(2) by (simp add: delete_project_branch_def)
  show "add_task s u pid bid td uuid4 now = Inl HTTP_403_FORBIDDEN"
    using b assms(2) by (simp add: add_task_def)
qed

lemma task_handlers_forbidden:
  assumes "task_in_project s tid bid pid" and "\<not> in_members u (members s pid)"
  shows "edit_task_in_branch s u ppid bid tid td now = Inl HTTP_403_FORBIDDEN"
    and "delete_task_in_branch s u ppid bid tid td now = Inl HTTP_403_FORBIDDEN"
    and "done_task_in_branch s u ppid bid tid m now = Inl HTTP_403_FORBIDDEN"
    and "problem_task_in_branch s u ppid bid tid m now = Inl HTTP_403_FORBIDDEN"
proof -
  from assms(1) obtain t p where t: "find (\<lambda>t. t_id t = tid) (tasks s) = Some t"
    "t_branch_id t = Some bid" "task_project s t = Some p" "p_id p = pid"
    by (rule task_in_projectD)
  show "edit_task_in_branch s u ppid bid tid td now = Inl HTTP_403_FORBIDDEN"
    using t assms(2) by (simp add: edit_task_in_branch_def)
  show "delete_task_in_branch s u ppid bid tid td now = Inl HTTP_403_FORBIDDEN"
    using t assms(2) by (simp add: delete_task_in_branch_def)
  show "done_task_in_branch s u ppid bid tid m now = Inl HTTP_403_FORBIDDEN"
    using t assms(2) by (simp add: done_task_in_branch_def)
  show "problem_task_in_branch s u ppid bid tid m now = Inl HTTP_403_FORBIDDEN"
    using t assms(2) by (simp add: problem_task_in_branch_def)
qed

text \<open>A member does not get 403.\<close>

lemma map_sum_dict_index_Inl:
  "map_sum id f (dict_index x) = Inl e \<Longrightarrow> e = HTTP_500_INTERNAL_SERVER_ERROR"
  by (cases x) (simp_all add: dict_index_def)

lemma member_not_forbidden:
  assumes "in_members u (members s pid)"
  shows "add_branch s u pid bd uuid4 now \<noteq> Inl HTTP_403_FORBIDDEN"
    and "get_project_info s u pid clock \<noteq> Inl HTTP_403_FORBIDDEN"
    and "edit_project_branch s u pid bd \<noteq> Inl HTTP_403_FORBIDDEN"
    and "delete_project_branch s u pid bd now \<noteq> Inl HTTP_403_FORBIDDEN"
    and "add_task s u pid bid td uuid4 now \<noteq> Inl HTTP_403_FORBIDDEN"
proof -
  show "add_branch s u pid bd uuid4 now \<noteq> Inl HTTP_403_FORBIDDEN"
    using assms
    by (auto simp: add_branch_def Let_def split: option.splits sum.splits
        dest: find_project_id dict_index_Inl)
  show "get_project_info s u pid clock \<noteq> Inl HTTP_403_FORBIDDEN"
    using assms
    by (auto simp: get_project_info_def split: option.splits sum.splits prod.splits
        dest: find_project_id branch_loop_Inl)
  have bp: "\<And>b p. b_project_id b = Some pid \<Longrightarrow> branch_project s b = Some p \<Longrightarrow> p_id p = pid"
    by (auto simp: branch_project_def dest: find_project_id)
  show "edit_project_branch s u pid bd \<noteq> Inl HTTP_403_FORBIDDEN"
    using assms
    by (auto simp: edit_project_branch_def split: option.splits sum.splits if_splits
        dest: bp dict_index_Inl)
  show "delete_project_branch s u pid bd now \<noteq> Inl HTTP_403_FORBIDDEN"
    using assms
    by (auto simp: delete_project_branch_def split: option.splits sum.splits if_splits
        dest: bp dict_index_Inl)
  show "add_task s u pid bid td uuid4 now \<noteq> Inl HTTP_403_FORBIDDEN"
  proof
    assume a: "add_task s u pid bid td uuid4 now = Inl HTTP_403_FORBIDDEN"
    show False
    proof (cases "find (\<lambda>b. b_id b = bid) (branches s)")
      case None
      with a show False by (simp add: add_task_def)
    next
      case (Some b)
      show False
      proof (cases "b_project_id b = Some pid")
        case False
        with a Some show False by (simp add: add_task_def)
      next
        case True
        show False
        proof (cases "branch_project s b")
          case None
          with a Some True show False by (simp add: add_task_def)
        next
          case (Some p)
          with True have "p_id p = pid" by (rule bp)
          with a \<open>find (\<lambda>b. b_id b = bid) (branches s) = Some b\<close> True Some assms
          show False
            by (auto simp: add_task_def Let_def split: sum.splits if_splits
                dest: dict_index_Inl map_sum_dict_index_Inl)
        qed
      qed
    qed
  qed
qed

lemma task_member_not_forbidden:
  assumes "task_in_project s tid bid pid" and "in_members u (members s pid)"
  shows "edit_task_in_branch s u ppid bid tid td now \<noteq> Inl HTTP_403_FORBIDDEN"
    and "delete_task_in_branch s u ppid bid tid td now \<noteq> Inl HTTP_403_FORBIDDEN"
    and "done_task_in_branch s u ppid bid tid m now \<noteq> Inl HTTP_403_FORBIDDEN"
    and "problem_task_in_branch s u ppid bid tid m now \<noteq> Inl HTTP_403_FORBIDDEN"
proof -
  from assms(1) obtain t p where t: "find (\<lambda>t. t_id t = tid) (tasks s) = Some t"
    "t_branch_id t = Some bid" "task_project s t = Some p" "p_id p = pid"
    by (rule task_in_projectD)
  show "edit_task_in_branch s u ppid bid tid td now \<noteq> Inl HTTP_403_FORBIDDEN"
    using t assms(2)
    by (auto simp: edit_task_in_branch_def split: sum.splits dest: dict_index_Inl)
  show "delete_task_in_branch s u ppid bid tid td now \<noteq> Inl HTTP_403_FORBIDDEN"
    using t assms(2) by (simp add: delete_task_in_branch_def)
  show "done_task_in_branch s u ppid bid tid m now \<noteq> Inl HTTP_403_FORBIDDEN"
    using t assms(2) by (simp add: done_task_in_branch_def)
  show "problem_task_in_branch s u ppid bid tid m now \<noteq> Inl HTTP_403_FORBIDDEN"
    using t assms(2) by (simp add: problem_task_in_branch_def)
qed

text \<open>What a successful \<^verbatim>\<open>add_user_to_project\<close> has done.\<close>

lemma add_user_to_project_success:
  assumes "add_user_to_project s admin pid upd = Inr (p, s')"
    and "upd_userId upd = Value uid"
  shows "uid \<in> set (map u_id (users s))"
    and "s' = s\<lparr>user_project := user_project s @
                 [\<lparr>up_user_id = uid, up_project_id = pid, up_role = MEMBER\<rparr>]\<rparr>"
proof -
  from assms obtain x where x: "find (\<lambda>u. u_id u = uid) (users s) = Some x"
    and s': "s' = s\<lparr>user_project := user_project s @
                 [\<lparr>up_user_id = u_id x, up_project_id = pid, up_role = MEMBER\<rparr>]\<rparr>"
    unfolding add_user_to_project_def
    by (auto split: option.splits if_splits dest: find_project_id)
  from x have "x \<in> set (users s)" and "u_id x = uid"
    by (auto simp: find_Some_iff in_set_conv_nth)
  then show "uid \<in> set (map u_id (users s))" by auto
  from s' \<open>u_id x = uid\<close>
  show "s' = s\<lparr>user_project := user_project s @
                 [\<lparr>up_user_id = uid, up_project_id = pid, up_role = MEMBER\<rparr>]\<rparr>"
    by simp
qed

lemma added_user_is_member:
  assumes "add_user_to_project s admin pid upd = Inr (p, s')"
    and "upd_userId upd = Value (u_id u)"
  shows "in_members u (members s' pid)"
proof -
  from assms have a: "u_id u \<in> set (map u_id (users s))"
    and s': "s' = s\<lparr>user_project := user_project s @
                 [\<lparr>up_user_id = u_id u, up_project_id = pid, up_role = MEMBER\<rparr>]\<rparr>"
    by (rule add_user_to_project_success)+
  from a obtain x where x: "x \<in> set (users s)" "u_id x = u_id u" by auto
  then have "x \<in> set (members s' pid)"
    by (simp add: members_def s')
  then have "u_id x \<in> set (map u_id (members s' pid))"
    by simp
  with x(2) show ?thesis
    by (simp add: in_members_def)
qed

lemma add_user_keeps_resources:
  assumes "add_user_to_project s admin pid upd = Inr (p, s')"
  shows "task_in_project s' tid bid pid' = task_in_project s tid bid pid'"
proof -
  from assms have "projects s' = projects s \<and> branches s' = branches s \<and> tasks s' = tasks s"
    unfolding add_user_to_project_def
    by (auto split: option.splits if_splits sum.splits)
  then show ?thesis
    by (simp add: task_in_project_def branch_in_project_def split: option.splits)
qed

text \<open>
  C6. A user who is not a member of project \<open>pid\<close> gets 403 (\<^verbatim>\<open>ForbiddenError\<close>) from
  each of the nine operations on the project's resources: \<^verbatim>\<open>add_branch\<close> and
  \<^verbatim>\<open>get_project_info\<close> on the project, \<^verbatim>\<open>edit_project_branch\<close>,
  \<^verbatim>\<open>delete_project_branch\<close> and \<^verbatim>\<open>add_task\<close> on a branch of it, and the four task
  handlers on a task of a branch of it, whatever project \<open>ppid\<close> the path of the request
  names: the task handlers do not read it. After a successful \<^verbatim>\<open>add_user_to_project\<close>
  that adds the user, the user is a member and none of the nine calls answers 403.
\<close>

theorem non_member_forbidden_until_added:
  "(\<not> in_members u (members s pid) \<longrightarrow>
      (find (\<lambda>p. p_id p = pid) (projects s) \<noteq> None \<longrightarrow>
         add_branch s u pid bd uuid4 now = Inl HTTP_403_FORBIDDEN \<and>
         get_project_info s u pid clock = Inl HTTP_403_FORBIDDEN) \<and>
      (branch_in_project s bid pid \<longrightarrow>
         (bd_id bd = Value bid \<longrightarrow>
            edit_project_branch s u pid bd = Inl HTTP_403_FORBIDDEN) \<and>
         (bd_branchId bd = Value bid \<longrightarrow>
            delete_project_branch s u pid bd now = Inl HTTP_403_FORBIDDEN) \<and>
         add_task s u pid bid td uuid4 now = Inl HTTP_403_FORBIDDEN) \<and>
      (task_in_project s tid bid pid \<longrightarrow>
         edit_task_in_branch s u ppid bid tid td now = Inl HTTP_403_FORBIDDEN \<and>
         delete_task_in_branch s u ppid bid tid td now = Inl HTTP_403_FORBIDDEN \<and>
         done_task_in_branch s u ppid bid tid m now = Inl HTTP_403_FORBIDDEN \<and>
         problem_task_in_branch s u ppid bid tid m now = Inl HTTP_403_FORBIDDEN)) \<and>
   (add_user_to_project s admin pid upd = Inr (p, s') \<and> upd_userId upd = Value (u_id u) \<longrightarrow>
      in_members u (members s' pid) \<and>
      add_branch s' u pid bd uuid4 now \<noteq> Inl HTTP_403_FORBIDDEN \<and>
      get_project_info s' u pid clock \<noteq> Inl HTTP_403_FORBIDDEN \<and>
      edit_project_branch s' u pid bd \<noteq> Inl HTTP_403_FORBIDDEN \<and>
      delete_project_branch s' u pid bd now \<noteq> Inl HTTP_403_FORBIDDEN \<and>
      add_task s' u pid bid td uuid4 now \<noteq> Inl HTTP_403_FORBIDDEN \<and>
      (task_in_project s tid bid pid \<longrightarrow>
         edit_task_in_branch s' u ppid bid tid td now \<noteq> Inl HTTP_403_FORBIDDEN \<and>
         delete_task_in_branch s' u ppid bid tid td now \<noteq> Inl HTTP_403_FORBIDDEN \<and>
         done_task_in_branch s' u ppid bid tid m now \<noteq> Inl HTTP_403_FORBIDDEN \<and>
         problem_task_in_branch s' u ppid bid tid m now \<noteq> Inl HTTP_403_FORBIDDEN))"
proof (intro conjI impI)
  assume n: "\<not> in_members u (members s pid)"
  {
    assume e: "find (\<lambda>p. p_id p = pid) (projects s) \<noteq> None"
    show "add_branch s u pid bd uuid4 now = Inl HTTP_403_FORBIDDEN"
      using e n by (rule add_branch_forbidden)
    show "get_project_info s u pid clock = Inl HTTP_403_FORBIDDEN"
      using e n by (rule get_project_info_forbidden)
  }
  {
    assume b: "branch_in_project s bid pid"
    show "add_task s u pid bid td uuid4 now = Inl HTTP_403_FORBIDDEN"
      using b n by (rule branch_handlers_forbidden(3))
    {
      assume "bd_id bd = Value bid"
      with b n show "edit_project_branch s u pid bd = Inl HTTP_403_FORBIDDEN"
        by (rule branch_handlers_forbidden(1))
    }
    {
      assume "bd_branchId bd = Value bid"
      with b n show "delete_project_branch s u pid bd now = Inl HTTP_403_FORBIDDEN"
        by (rule branch_handlers_forbidden(2))
    }
  }
  {
    assume t: "task_in_project s tid bid pid"
    show "edit_task_in_branch s u ppid bid tid td now = Inl HTTP_403_FORBIDDEN"
      using t n by (rule task_handlers_forbidden(1))
    show "delete_task_in_branch s u ppid bid tid td now = Inl HTTP_403_FORBIDDEN"
      using t n by (rule task_handlers_forbidden(2))
    show "done_task_in_branch s u ppid bid tid m now = Inl HTTP_403_FORBIDDEN"
      using t n by (rule task_handlers_forbidden(3))
    show "problem_task_in_branch s u ppid bid tid m now = Inl HTTP_403_FORBIDDEN"
      using t n by (rule task_handlers_forbidden(4))
  }
next
  assume a: "add_user_to_project s admin pid upd = Inr (p, s') \<and>
             upd_userId upd = Value (u_id u)"
  then have m: "in_members u (members s' pid)"
    by (blast intro: added_user_is_member)
  show "in_members u (members s' pid)" by (rule m)
  show "add_branch s' u pid bd uuid4 now \<noteq> Inl HTTP_403_FORBIDDEN"
    using m by (rule member_not_forbidden(1))
  show "get_project_info s' u pid clock \<noteq> Inl HTTP_403_FORBIDDEN"
    using m by (rule member_not_forbidden(2))
  show "edit_project_branch s' u pid bd \<noteq> Inl HTTP_403_FORBIDDEN"
    using m by (rule member_not_forbidden(3))
  show "delete_project_branch s' u pid bd now \<noteq> Inl HTTP_403_FORBIDDEN"
    using m by (rule member_not_forbidden(4))
  show "add_task s' u pid bid td uuid4 now \<noteq> Inl HTTP_403_FORBIDDEN"
    using m by (rule member_not_forbidden(5))
  {
    assume "task_in_project s tid bid pid"
    with a have t: "task_in_project s' tid bid pid"
      using add_user_keeps_resources[of s admin pid upd p s' tid bid pid] by blast
    show "edit_task_in_branch s' u ppid bid tid td now \<noteq> Inl HTTP_403_FORBIDDEN"
      using t m by (rule task_member_not_forbidden(1))
    show "delete_task_in_branch s' u ppid bid tid td now \<noteq> Inl HTTP_403_FORBIDDEN"
      using t m by (rule task_member_not_forbidden(2))
    show "done_task_in_branch s' u ppid bid tid m now \<noteq> Inl HTTP_403_FORBIDDEN"
      using t m by (rule task_member_not_forbidden(3))
    show "problem_task_in_branch s' u ppid bid tid m now \<noteq> Inl HTTP_403_FORBIDDEN"
      using t m by (rule task_member_not_forbidden(4))
  }
qed

text \<open>The witness: Bob is not a member of project 1, which owns branch \<open>b1\<close> and task
  \<open>t1\<close>, and calls the task handlers through the path of project 2, where he is a
  member; Alice adds him to project 1.\<close>

lemma ex_bob_outside:
  "\<not> in_members ex_bob (members ex_store 1)"
  "find (\<lambda>p. p_id p = 1) (projects ex_store) \<noteq> None"
  "branch_in_project ex_store ''b1'' 1"
  "task_in_project ex_store ''t1'' ''b1'' 1"
  "bd_id ex_branch_data = Value ''b1''"
  "bd_branchId ex_branch_data = Value ''b1''"
  by (simp_all add: ex_defs ex_branch_data_def auth_defs branch_in_project_def
      task_in_project_def)

lemma ex_add_bob_ok:
  "add_user_to_project ex_store ex_alice 1 ex_add_bob =
     Inr (ex_project,
          ex_store\<lparr>user_project := user_project ex_store @
                      [\<lparr>up_user_id = 2, up_project_id = 1, up_role = MEMBER\<rparr>]\<rparr>) \<and>
   upd_userId ex_add_bob = Value (u_id ex_bob)"
  by (simp add: add_user_to_project_def ex_defs ex_add_bob_def auth_defs)

theorem non_member_forbidden_until_added_witness:
  "\<not> in_members ex_bob (members ex_store 1) \<and>
   add_branch ex_store ex_bob 1 ex_branch_data ''x1'' ex_now = Inl HTTP_403_FORBIDDEN \<and>
   get_project_info ex_store ex_bob 1 (\<lambda>k. ex_now) = Inl HTTP_403_FORBIDDEN \<and>
   edit_project_branch ex_store ex_bob 1 ex_branch_data = Inl HTTP_403_FORBIDDEN \<and>
   delete_project_branch ex_store ex_bob 1 ex_branch_data ex_now = Inl HTTP_403_FORBIDDEN \<and>
   add_task ex_store ex_bob 1 ''b1'' ex_task_data ''x1'' ex_now = Inl HTTP_403_FORBIDDEN \<and>
   edit_task_in_branch ex_store ex_bob 2 ''b1'' ''t1'' ex_edit_data ex_now =
     Inl HTTP_403_FORBIDDEN \<and>
   delete_task_in_branch ex_store ex_bob 2 ''b1'' ''t1'' ex_edit_data ex_now =
     Inl HTTP_403_FORBIDDEN \<and>
   done_task_in_branch ex_store ex_bob 2 ''b1'' ''t1'' ''fixed'' ex_now =
     Inl HTTP_403_FORBIDDEN \<and>
   problem_task_in_branch ex_store ex_bob 2 ''b1'' ''t1'' ''fixed'' ex_now =
     Inl HTTP_403_FORBIDDEN \<and>
   (\<exists>p s'. add_user_to_project ex_store ex_alice 1 ex_add_bob = Inr (p, s') \<and>
      in_members ex_bob (members s' 1) \<and>
      add_branch s' ex_bob 1 ex_branch_data ''x1'' ex_now \<noteq> Inl HTTP_403_FORBIDDEN \<and>
      get_project_info s' ex_bob 1 (\<lambda>k. ex_now) \<noteq> Inl HTTP_403_FORBIDDEN \<and>
      edit_project_branch s' ex_bob 1 ex_branch_data \<noteq> Inl HTTP_403_FORBIDDEN \<and>
      delete_project_branch s' ex_bob 1 ex_branch_data ex_now \<noteq> Inl HTTP_403_FORBIDDEN \<and>
      add_task s' ex_bob 1 ''b1'' ex_task_data ''x1'' ex_now \<noteq> Inl HTTP_403_FORBIDDEN \<and>
      edit_task_in_branch s' ex_bob 2 ''b1'' ''t1'' ex_edit_data ex_now \<noteq>
        Inl HTTP_403_FORBIDDEN \<and>
      delete_task_in_branch s' ex_bob 2 ''b1'' ''t1'' ex_edit_data ex_now \<noteq>
        Inl HTTP_403_FORBIDDEN \<and>
      done_task_in_branch s' ex_bob 2 ''b1'' ''t1'' ''fixed'' ex_now \<noteq>
        Inl HTTP_403_FORBIDDEN \<and>
      problem_task_in_branch s' ex_bob 2 ''b1'' ''t1'' ''fixed'' ex_now \<noteq>
        Inl HTTP_403_FORBIDDEN)"
proof -
  note inst = non_member_forbidden_until_added
    [where u = ex_bob and s = ex_store and pid = 1 and bd = ex_branch_data
       and ?uuid4.0 = "''x1''" and now = ex_now and clock = "\<lambda>k. ex_now"
       and bid = "''b1''" and tid = "''t1''" and m = "''fixed''" and ppid = 2
       and admin = ex_alice and upd = ex_add_bob]
  note out1 = inst[where td = ex_task_data, THEN conjunct1, rule_format,
                   OF ex_bob_outside(1)]
  note out2 = inst[where td = ex_edit_data, THEN conjunct1, rule_format,
                   OF ex_bob_outside(1)]
  note in1 = inst[where td = ex_task_data, THEN conjunct2, rule_format, OF ex_add_bob_ok]
  note in2 = inst[where td = ex_edit_data, THEN conjunct2, rule_format, OF ex_add_bob_ok]
  show ?thesis
    using out1 out2 in1 in2 ex_bob_outside ex_add_bob_ok by blast
qed

subsection \<open>The two flags after a transition\<close>

text \<open>A member of the project that owns the task completes both transitions, whatever
  flags the task has and whatever project the path names.\<close>

lemma mark_task_member:
  assumes "task_in_project s tid bid pid" and "in_members u (members s pid)"
  obtains s1 s2 where "done_task_in_branch s u ppid bid tid m now = Inr (True, s1)"
    and "problem_task_in_branch s u ppid bid tid m now = Inr (True, s2)"
proof -
  from assms(1) obtain t p where t: "find (\<lambda>t. t_id t = tid) (tasks s) = Some t"
    "t_branch_id t = Some bid" "task_project s t = Some p" "p_id p = pid"
    by (rule task_in_projectD)
  have "\<exists>s1. done_task_in_branch s u ppid bid tid m now = Inr (True, s1)"
    using t assms(2) by (simp add: done_task_in_branch_def)
  moreover have "\<exists>s2. problem_task_in_branch s u ppid bid tid m now = Inr (True, s2)"
    using t assms(2) by (simp add: problem_task_in_branch_def)
  ultimately show thesis using that by blast
qed

text \<open>
  C7. After a successful \<^verbatim>\<open>done_task_in_branch\<close> or \<^verbatim>\<open>problem_task_in_branch\<close> the
  target task does not have \<open>done\<close> and \<open>has_problem\<close> both true, whatever its flags
  were before; and for a member of the project that owns the task both calls do succeed,
  whatever the flags of the task were before, also when both were true.
\<close>

theorem mark_never_done_and_problem:
  "((done_task_in_branch s u ppid bid tid m now = Inr (r, s') \<or>
     problem_task_in_branch s u ppid bid tid m now = Inr (r, s')) \<longrightarrow>
    (\<exists>t'. find (\<lambda>t. t_id t = tid) (tasks s') = Some t' \<and> \<not> (t_done t' \<and> t_has_problem t'))) \<and>
   (task_in_project s tid bid pid \<and> in_members u (members s pid) \<longrightarrow>
    (\<exists>s1 t1. done_task_in_branch s u ppid bid tid m now = Inr (True, s1) \<and>
             find (\<lambda>t. t_id t = tid) (tasks s1) = Some t1 \<and>
             \<not> (t_done t1 \<and> t_has_problem t1)) \<and>
    (\<exists>s2 t2. problem_task_in_branch s u ppid bid tid m now = Inr (True, s2) \<and>
             find (\<lambda>t. t_id t = tid) (tasks s2) = Some t2 \<and>
             \<not> (t_done t2 \<and> t_has_problem t2)))"
proof -
  have d: "\<exists>t'. find (\<lambda>t. t_id t = tid) (tasks x) = Some t' \<and> \<not> (t_done t' \<and> t_has_problem t')"
    if "done_task_in_branch s u ppid bid tid m now = Inr (q, x)" for q x
  proof -
    from that obtain t where
      "find (\<lambda>t. t_id t = tid) (tasks x) =
         Some (flush_task now t (t\<lparr>t_done := True, t_has_problem := False,
                                  t_problem_message := Some m\<rparr>))"
      by (rule done_task_after)
    then show ?thesis by (simp add: flush_task_flags)
  qed
  have p: "\<exists>t'. find (\<lambda>t. t_id t = tid) (tasks x) = Some t' \<and> \<not> (t_done t' \<and> t_has_problem t')"
    if "problem_task_in_branch s u ppid bid tid m now = Inr (q, x)" for q x
  proof -
    from that obtain t where
      "find (\<lambda>t. t_id t = tid) (tasks x) =
         Some (flush_task now t (t\<lparr>t_has_problem := True, t_done := False,
                                  t_problem_message := Some m\<rparr>))"
      by (rule problem_task_after)
    then show ?thesis by (simp add: flush_task_flags)
  qed
  have first: "(done_task_in_branch s u ppid bid tid m now = Inr (r, s') \<or>
     problem_task_in_branch s u ppid bid tid m now = Inr (r, s')) \<longrightarrow>
    (\<exists>t'. find (\<lambda>t. t_id t = tid) (tasks s') = Some t' \<and> \<not> (t_done t' \<and> t_has_problem t'))"
    using d p by blast
  have second: "task_in_project s tid bid pid \<and> in_members u (members s pid) \<longrightarrow>
    (\<exists>s1 t1. done_task_in_branch s u ppid bid tid m now = Inr (True, s1) \<and>
             find (\<lambda>t. t_id t = tid) (tasks s1) = Some t1 \<and>
             \<not> (t_done t1 \<and> t_has_problem t1)) \<and>
    (\<exists>s2 t2. problem_task_in_branch s u ppid bid tid m now = Inr (True, s2) \<and>
             find (\<lambda>t. t_id t = tid) (tasks s2) = Some t2 \<and>
             \<not> (t_done t2 \<and> t_has_problem t2))"
  proof
    assume "task_in_project s tid bid pid \<and> in_members u (members s pid)"
    then obtain s1 s2 where a: "done_task_in_branch s u ppid bid tid m now = Inr (True, s1)"
      and b: "problem_task_in_branch s u ppid bid tid m now = Inr (True, s2)"
      using mark_task_member[of s tid bid pid u ppid m now] by blast
    from d[OF a] a b p[OF b]
    show "(\<exists>s1 t1. done_task_in_branch s u ppid bid tid m now = Inr (True, s1) \<and>
             find (\<lambda>t. t_id t = tid) (tasks s1) = Some t1 \<and>
             \<not> (t_done t1 \<and> t_has_problem t1)) \<and>
          (\<exists>s2 t2. problem_task_in_branch s u ppid bid tid m now = Inr (True, s2) \<and>
             find (\<lambda>t. t_id t = tid) (tasks s2) = Some t2 \<and>
             \<not> (t_done t2 \<and> t_has_problem t2))"
      by blast
  qed
  from first second show ?thesis by (rule conjI)
qed

text \<open>The witness starts from a task with \<open>has_problem\<close> true (\<open>t1\<close>, marked done), from
  a task with \<open>done\<close> true (\<open>t2\<close>, marked as a problem), and from a task with both flags
  true (\<open>t1\<close> of the second store), which either call completes and leaves with one flag.\<close>

lemma ex_both_task:
  "find (\<lambda>t. t_id t = ''t1'') (tasks ex_both_store) = Some (ex_task\<lparr>t_done := True\<rparr>)"
  "t_done (ex_task\<lparr>t_done := True\<rparr>) \<and> t_has_problem (ex_task\<lparr>t_done := True\<rparr>)"
  "task_in_project ex_both_store ''t1'' ''b1'' 1 \<and> in_members ex_alice (members ex_both_store 1)"
  by (simp_all add: ex_both_store_def ex_defs auth_defs task_in_project_def
      branch_in_project_def)

theorem mark_never_done_and_problem_witness:
  "t_has_problem ex_task \<and> t_done ex_task2 \<and>
   (\<exists>s'. done_task_in_branch ex_store ex_alice 1 ''b1'' ''t1'' ''fixed'' ex_now = Inr (True, s') \<and>
         (\<exists>t'. find (\<lambda>t. t_id t = ''t1'') (tasks s') = Some t' \<and>
               \<not> (t_done t' \<and> t_has_problem t'))) \<and>
   (\<exists>s'. problem_task_in_branch ex_store ex_alice 1 ''b1'' ''t2'' ''broken'' ex_now = Inr (True, s') \<and>
         (\<exists>t'. find (\<lambda>t. t_id t = ''t2'') (tasks s') = Some t' \<and>
               \<not> (t_done t' \<and> t_has_problem t'))) \<and>
   (\<exists>t. find (\<lambda>t. t_id t = ''t1'') (tasks ex_both_store) = Some t \<and>
        t_done t \<and> t_has_problem t) \<and>
   (\<exists>s1 t1. done_task_in_branch ex_both_store ex_alice 1 ''b1'' ''t1'' ''fixed'' ex_now =
              Inr (True, s1) \<and>
            find (\<lambda>t. t_id t = ''t1'') (tasks s1) = Some t1 \<and>
            \<not> (t_done t1 \<and> t_has_problem t1)) \<and>
   (\<exists>s2 t2. problem_task_in_branch ex_both_store ex_alice 1 ''b1'' ''t1'' ''fixed'' ex_now =
              Inr (True, s2) \<and>
            find (\<lambda>t. t_id t = ''t1'') (tasks s2) = Some t2 \<and>
            \<not> (t_done t2 \<and> t_has_problem t2))"
proof -
  have a: "t_has_problem ex_task \<and> t_done ex_task2"
    by (simp add: ex_task_def ex_task2_def)
  have b: "\<exists>t. find (\<lambda>t. t_id t = ''t1'') (tasks ex_both_store) = Some t \<and>
        t_done t \<and> t_has_problem t"
    using ex_both_task(1) ex_both_task(2) by blast
  note c = mark_never_done_and_problem
             [where s = ex_store and u = ex_alice and ppid = 1 and bid = "''b1''"
                and now = ex_now and r = True, THEN conjunct1, rule_format]
  note c1 = c[where tid = "''t1''" and m = "''fixed''", OF disjI1, OF ex_done_task]
  note c2 = c[where tid = "''t2''" and m = "''broken''", OF disjI2, OF ex_problem_task]
  note e = mark_never_done_and_problem
             [where s = ex_both_store and u = ex_alice and ppid = 1 and bid = "''b1''"
                and tid = "''t1''" and pid = 1 and m = "''fixed''" and now = ex_now,
              THEN conjunct2, rule_format, OF ex_both_task(3)]
  show ?thesis
    using a b c1 c2 e ex_done_task ex_problem_task by blast
qed


subsection \<open>isoformat and fromisoformat\<close>

lemma below_ten: "(k::nat) < 10 \<Longrightarrow> k = 0 \<or> k = 1 \<or> k = 2 \<or> k = 3 \<or> k = 4 \<or> k = 5 \<or> k = 6 \<or> k = 7 \<or> k = 8 \<or> k = 9"
  by arith

lemma digit_val_digit_char: "n < 10 \<Longrightarrow> digit_val (digit_char n) = Some n"
  by (drule below_ten) (auto simp: digit_val_def digit_char_def)

lemma digit_char_mod: "digit_char n = digit_char (n mod 10)"
  by (simp add: digit_char_def)

lemma digit_char_no_sign: "\<not> is_sign (digit_char n)"
proof -
  have "n mod 10 < 10" by simp
  then have "\<not> is_sign (digit_char (n mod 10))"
    by (drule_tac below_ten) (auto simp: is_sign_def digit_char_def)
  then show ?thesis using digit_char_mod[of n] by simp
qed

lemma parse_digits_add:
  "parse_digits (a + b) acc s =
     (case parse_digits a acc s of None \<Rightarrow> None | Some (v, r) \<Rightarrow> parse_digits b v r)"
  by (induction a acc s rule: parse_digits.induct) (auto split: option.splits)

lemma parse_digits_zeros:
  "parse_digits j acc (replicate j (CHR ''0'') @ r) = Some (acc * 10 ^ j, r)"
  by (induction j arbitrary: acc) (simp_all add: digit_val_def)

lemma parse_digits_decimal:
  "parse_digits (length (decimal n)) acc (decimal n @ r) =
     Some (acc * 10 ^ length (decimal n) + n, r)"
proof (induction n arbitrary: acc r rule: decimal.induct)
  case (1 n)
  show ?case
  proof (cases "n < 10")
    case True
    then show ?thesis
      by (simp add: decimal.simps[of n] digit_val_digit_char)
  next
    case False
    let ?l = "length (decimal (n div 10))"
    let ?s = "decimal (n div 10) @ (digit_char (n mod 10) # r)"
    have d: "decimal n = decimal (n div 10) @ [digit_char (n mod 10)]"
      using False by (simp add: decimal.simps[of n])
    have a: "parse_digits (?l + 1) acc ?s =
            (case parse_digits ?l acc ?s of None \<Rightarrow> None | Some (v, r) \<Rightarrow> parse_digits 1 v r)"
      by (rule parse_digits_add)
    have b: "parse_digits ?l acc ?s = Some (acc * 10 ^ ?l + n div 10, digit_char (n mod 10) # r)"
      using "1.IH"[OF False, of acc "digit_char (n mod 10) # r"] .
    have c: "parse_digits (?l + 1) acc ?s = Some ((acc * 10 ^ ?l + n div 10) * 10 + n mod 10, r)"
      unfolding a b by (simp add: digit_val_digit_char)
    have e: "(acc * 10 ^ ?l + n div 10) * 10 + n mod 10 = acc * 10 ^ (?l + 1) + n"
      by (simp add: algebra_simps)
    have f: "length (decimal n) = ?l + 1" "decimal n @ r = ?s"
      by (simp_all add: d)
    show ?thesis unfolding f c e ..
  qed
qed

lemma length_decimal: "n < 10 ^ k \<Longrightarrow> 0 < k \<Longrightarrow> length (decimal n) \<le> k"
proof (induction n arbitrary: k rule: decimal.induct)
  case (1 n)
  show ?case
  proof (cases "n < 10")
    case True
    then show ?thesis using "1.prems" by (simp add: decimal.simps[of n])
  next
    case False
    then obtain j where k: "k = Suc j" using "1.prems" by (cases k) auto
    have "0 < j" using False "1.prems" k by (cases j) auto
    moreover have "n div 10 < 10 ^ j" using "1.prems" k by (simp add: less_mult_imp_div_less)
    ultimately have "length (decimal (n div 10)) \<le> j" using "1.IH"[OF False] by simp
    then show ?thesis using False k by (simp add: decimal.simps[of n])
  qed
qed

lemma length_zero_pad: "n < 10 ^ k \<Longrightarrow> 0 < k \<Longrightarrow> length (zero_pad k n) = k"
  using length_decimal[of n k] by (simp add: zero_pad_def)

lemma parse_digits_zero_pad:
  assumes "n < 10 ^ k" and "0 < k"
  shows "parse_digits k 0 (zero_pad k n @ r) = Some (n, r)"
proof -
  let ?l = "length (decimal n)"
  have l: "?l \<le> k" using assms by (rule length_decimal)
  have "parse_digits ((k - ?l) + ?l) 0 (zero_pad k n @ r) = Some (n, r)"
    unfolding parse_digits_add
    by (simp add: zero_pad_def parse_digits_zeros parse_digits_decimal)
  with l show ?thesis by simp
qed

lemma decimal_no_sign: "c \<in> set (decimal n) \<Longrightarrow> \<not> is_sign c"
proof (induction n rule: decimal.induct)
  case (1 n)
  then show ?case
    by (cases "n < 10") (auto simp: decimal.simps[of n] digit_char_no_sign)
qed

lemma zero_pad_no_sign: "c \<in> set (zero_pad k n) \<Longrightarrow> \<not> is_sign c"
  using decimal_no_sign[of c n] by (auto simp: zero_pad_def is_sign_def)
lemma parse_two:
  assumes "n < 100"
  shows "parse_digits 2 0 (zero_pad 2 n @ r) = Some (n, r)"
    and "parse_digits 2 0 (zero_pad 2 n) = Some (n, [])"
  using parse_digits_zero_pad[of n 2 r] parse_digits_zero_pad[of n 2 "[]"] assms
  by (simp_all del: parse_digits_numeral)

lemma parse_four: "n < 10000 \<Longrightarrow> parse_digits 4 0 (zero_pad 4 n @ r) = Some (n, r)"
  using parse_digits_zero_pad[of n 4 r] by (simp del: parse_digits_numeral)

lemma parse_six: "n < 1000000 \<Longrightarrow> parse_digits 6 0 (zero_pad 6 n) = Some (n, [])"
  using parse_digits_zero_pad[of n 6 "[]"] by (simp del: parse_digits_numeral)

lemma parse_fraction_six: "n < 1000000 \<Longrightarrow> parse_fraction (zero_pad 6 n) = Some n"
  using length_zero_pad[of n 6] by (simp add: parse_fraction_def parse_six del: parse_digits_numeral)

lemma parse_format_time:
  assumes "hour d < 24" "minute d < 60" "second d < 60" "microsecond d < 1000000"
  shows "parse_hh_mm_ss_ff (format_time d) = Some (hour d, minute d, second d, microsecond d)"
proof -
  have "hour d < 100" "minute d < 100" "second d < 100" using assms by simp_all
  then show ?thesis using assms(4)
    by (simp add: parse_hh_mm_ss_ff_def format_time_def parse_two parse_fraction_six
             del: parse_digits_numeral)
qed

lemma format_time_no_sign: "c \<in> set (format_time d) \<Longrightarrow> \<not> is_sign c"
  by (auto simp: format_time_def dest: zero_pad_no_sign split: if_splits) (simp_all add: is_sign_def)

lemma parse_isoformat_time_format_time:
  assumes "hour d < 24" "minute d < 60" "second d < 60" "microsecond d < 1000000"
  shows "parse_isoformat_time (format_time d) =
           Some (hour d, minute d, second d, microsecond d, None)"
proof -
  have a: "takeWhile (\<lambda>c. \<not> is_sign c) (format_time d) = format_time d"
    by (rule takeWhile_eq_all_conv[THEN iffD2]) (simp add: format_time_no_sign)
  have b: "dropWhile (\<lambda>c. \<not> is_sign c) (format_time d) = []"
    by (rule dropWhile_eq_Nil_conv[THEN iffD2]) (simp add: format_time_no_sign)
  show ?thesis
    unfolding parse_isoformat_time_def a b parse_format_time[OF assms] by simp
qed

text \<open>A valid naive datetime is read back from its own \<^verbatim>\<open>isoformat()\<close>.\<close>

lemma fromisoformat_isoformat:
  assumes v: "valid_datetime d" and n: "tzinfo d = None"
  shows "fromisoformat (isoformat d) = Some d"
proof -
  have t: "hour d < 24" "minute d < 60" "second d < 60" "microsecond d < 1000000"
    using v by (simp_all add: valid_datetime_def)
  have "month d \<le> 12" "day d \<le> days_in_month (year d) (month d)" "year d \<le> 9999"
    using v by (simp_all add: valid_datetime_def)
  then have r: "year d < 10000" "month d < 100" "day d < 100"
    by (auto simp: days_in_month_def split: if_splits)
  have e: "\<lparr>year = year d, month = month d, day = day d, hour = hour d, minute = minute d,
            second = second d, microsecond = microsecond d, tzinfo = None\<rparr> = d"
    using n by (cases d) simp
  show ?thesis
    using v by (simp add: fromisoformat_def isoformat_def n format_offset_def parse_four[OF r(1)]
                      parse_two[OF r(2)] parse_two[OF r(3)]
                      parse_isoformat_time_format_time[OF t] new_datetime_def e
                 del: parse_digits_numeral)
qed

lemma isoformat_not_empty: "isoformat d \<noteq> []"
  by (simp add: isoformat_def zero_pad_def decimal.simps[of "year d"])
subsection \<open>The counters of get_project_info\<close>

lemma datetime_lt_naive:
  "tzinfo a = None \<Longrightarrow> datetime_lt e a = Some b \<Longrightarrow> tzinfo e = None"
  by (auto simp: datetime_lt_def split: option.splits)

lemma datetime_lt_naive_Some:
  "tzinfo a = None \<Longrightarrow> tzinfo e = None \<Longrightarrow>
   datetime_lt e a = Some (local_microseconds e < local_microseconds a)"
  by (simp add: datetime_lt_def)

text \<open>The loop over the tasks of a branch, read against one instant.\<close>

lemma count_tasks_fixed:
  assumes "count_tasks (\<lambda>k. a) k st ts = Inr (k', st')"
  shows "taskCount st' = taskCount st + length ts \<and>
         completedTasksCount st' = completedTasksCount st + length (filter t_done ts) \<and>
         problemTasksCount st' = problemTasksCount st + length (filter t_has_problem ts) \<and>
         delayedTasksCount st' = delayedTasksCount st + length (filter (is_delayed a) ts)"
  using assms
proof (induction ts arbitrary: k st)
  case Nil
  then show ?case by simp
next
  case (Cons t ts)
  show ?case
  proof (cases "t_end_date t")
    case None
    with Cons.prems have
      "count_tasks (\<lambda>k. a) k
         (let st1 = st\<lparr>taskCount := taskCount st + 1\<rparr>;
              st2 = (if t_done t then st1\<lparr>completedTasksCount := completedTasksCount st1 + 1\<rparr>
                     else st1)
          in (if t_has_problem t then st2\<lparr>problemTasksCount := problemTasksCount st2 + 1\<rparr>
              else st2)) ts = Inr (k', st')"
      by (simp add: Let_def)
    from Cons.IH[OF this] None show ?thesis
      by (simp add: Let_def is_delayed_def)
  next
    case (Some e)
    with Cons.prems obtain b where b: "datetime_lt e a = Some b"
      by (auto simp: Let_def split: option.splits)
    with Some Cons.prems have
      "count_tasks (\<lambda>k. a) (Suc k)
         (let st1 = st\<lparr>taskCount := taskCount st + 1\<rparr>;
              st2 = (if t_done t then st1\<lparr>completedTasksCount := completedTasksCount st1 + 1\<rparr>
                     else st1);
              st3 = (if t_has_problem t then st2\<lparr>problemTasksCount := problemTasksCount st2 + 1\<rparr>
                     else st2)
          in (if b \<and> \<not> t_done t
              then st3\<lparr>delayedTasksCount := delayedTasksCount st3 + 1\<rparr> else st3)) ts =
       Inr (k', st')"
      by (simp add: Let_def)
    from Cons.IH[OF this] Some b show ?thesis
      by (simp add: Let_def is_delayed_def)
  qed
qed

lemma count_tasks_naive:
  assumes "count_tasks (\<lambda>k. a) k st ts = Inr (k', st')" and "tzinfo a = None"
    and "t \<in> set ts" and "t_end_date t = Some e"
  shows "tzinfo e = None"
  using assms
proof (induction ts arbitrary: k st)
  case Nil
  then show ?case by simp
next
  case (Cons x ts)
  show ?case
  proof (cases "t = x")
    case True
    with Cons.prems show ?thesis
      by (auto simp: Let_def split: option.splits dest: datetime_lt_naive)
  next
    case False
    with Cons.prems have "t \<in> set ts" by simp
    moreover from Cons.prems(1) obtain k1 st1 where "count_tasks (\<lambda>k. a) k1 st1 ts = Inr (k', st')"
      by (auto simp: Let_def split: option.splits)
    ultimately show ?thesis
      using Cons.IH Cons.prems(2,4) by blast
  qed
qed

text \<open>The count over the dictionaries of a branch, which reads the end dates back from
  their \<^verbatim>\<open>isoformat()\<close>.\<close>

lemma task_dto_of_sel:
  "dto_endDate (task_dto_of t) = map_option isoformat (t_end_date t)"
  "dto_done (task_dto_of t) = t_done t"
  "dto_hasProblem (task_dto_of t) = t_has_problem t"
  by (simp_all add: task_dto_of_def)

lemma delayed_tasks_count_fixed:
  assumes "delayed_tasks_count (\<lambda>k. a) k (map task_dto_of ts) = Inr (k', n)"
    and "\<And>t e. t \<in> set ts \<Longrightarrow> t_end_date t = Some e \<Longrightarrow> valid_datetime e \<and> tzinfo e = None"
  shows "n = length (filter (is_delayed a) ts)"
  using assms
proof (induction ts arbitrary: k n)
  case Nil
  then show ?case by simp
next
  case (Cons t ts)
  have rest: "\<And>x e. x \<in> set ts \<Longrightarrow> t_end_date x = Some e \<Longrightarrow> valid_datetime e \<and> tzinfo e = None"
    using Cons.prems(2) by (meson list.set_intros(2))
  show ?case
  proof (cases "t_end_date t")
    case None
    with Cons.prems(1) have "delayed_tasks_count (\<lambda>k. a) k (map task_dto_of ts) = Inr (k', n)"
      by (simp add: task_dto_of_sel)
    from Cons.IH[OF this rest] None show ?thesis
      by (simp add: is_delayed_def)
  next
    case (Some e)
    then have "valid_datetime e \<and> tzinfo e = None"
      using Cons.prems(2)[of t e] by simp
    then have rt: "fromisoformat (isoformat e) = Some e"
      by (simp add: fromisoformat_isoformat)
    have dto: "dto_endDate (task_dto_of t) = Some (isoformat e)" "dto_done (task_dto_of t) = t_done t"
      using Some by (simp_all add: task_dto_of_sel)
    from Cons.prems(1) obtain b where b: "datetime_lt e a = Some b"
      by (auto simp: dto rt isoformat_not_empty split: option.splits)
    with Cons.prems(1) obtain n' where
      n': "delayed_tasks_count (\<lambda>k. a) (Suc k) (map task_dto_of ts) = Inr (k', n')"
      and n: "n = (if b \<and> \<not> t_done t then 1 else 0) + n'"
      by (auto simp: dto rt isoformat_not_empty split: sum.splits)
    from Cons.IH[OF n' rest] n Some b show ?thesis
      by (simp add: is_delayed_def)
  qed
qed

lemma branch_statistics_fixed:
  assumes "branch_statistics (\<lambda>k. a) k (map task_dto_of ts) = Inr (k', bst)"
    and "\<And>t e. t \<in> set ts \<Longrightarrow> t_end_date t = Some e \<Longrightarrow> valid_datetime e \<and> tzinfo e = None"
  shows "bst = classified a ts"
proof -
  from assms(1) obtain n where n: "delayed_tasks_count (\<lambda>k. a) k (map task_dto_of ts) = Inr (k', n)"
    and bst: "bst = \<lparr>taskCount = length (map task_dto_of ts),
                    completedTasksCount = length (filter dto_done (map task_dto_of ts)),
                    delayedTasksCount = n,
                    problemTasksCount = length (filter dto_hasProblem (map task_dto_of ts))\<rparr>"
    by (auto simp: branch_statistics_def split: sum.splits)
  have "n = length (filter (is_delayed a) ts)"
    using n assms(2) by (rule delayed_tasks_count_fixed)
  moreover have "filter dto_done (map task_dto_of ts) = map task_dto_of (filter t_done ts)"
    "filter dto_hasProblem (map task_dto_of ts) = map task_dto_of (filter t_has_problem ts)"
    by (simp_all add: filter_map comp_def task_dto_of_sel)
  ultimately show ?thesis
    by (simp add: bst classified_def)
qed

lemma end_dates_validD:
  "end_dates_valid s \<Longrightarrow> t \<in> set (branch_tasks s b) \<Longrightarrow> t_end_date t = Some e \<Longrightarrow>
   valid_datetime e"
  by (auto simp: end_dates_valid_def branch_tasks_def list_all_iff split: option.splits)

text \<open>The loop over the branches: the statistics of every branch are the classification
  of its tasks, and the counters of the project grow by the classification of the tasks
  of all the branches.\<close>

lemma branch_loop_fixed:
  assumes "branch_loop s (\<lambda>k. a) k st bs = Inr (k', st', dtos)"
    and "tzinfo a = None" and "end_dates_valid s"
  shows "map bdto_statistics dtos = map (\<lambda>b. classified a (branch_tasks s b)) bs \<and>
         taskCount st' = taskCount st + length (concat (map (branch_tasks s) bs)) \<and>
         completedTasksCount st' =
           completedTasksCount st + length (filter t_done (concat (map (branch_tasks s) bs))) \<and>
         problemTasksCount st' =
           problemTasksCount st +
           length (filter t_has_problem (concat (map (branch_tasks s) bs))) \<and>
         delayedTasksCount st' =
           delayedTasksCount st +
           length (filter (is_delayed a) (concat (map (branch_tasks s) bs)))"
  using assms(1)
proof (induction bs arbitrary: k st dtos)
  case Nil
  then show ?case by simp
next
  case (Cons b bs)
  let ?ts = "branch_tasks s b"
  from Cons.prems obtain k1 st1 where c: "count_tasks (\<lambda>k. a) k st ?ts = Inr (k1, st1)"
    by (auto simp: Let_def branch_tasks_def split: sum.splits)
  with Cons.prems obtain k2 bst where
    bs: "branch_statistics (\<lambda>k. a) k1 (map task_dto_of ?ts) = Inr (k2, bst)"
    by (auto simp: Let_def branch_tasks_def split: sum.splits)
  with c Cons.prems obtain rest where
    l: "branch_loop s (\<lambda>k. a) k2 st1 bs = Inr (k', st', rest)"
    and d: "dtos = \<lparr>bdto_branchId = b_id b, bdto_name = b_name b,
                    bdto_tasks = map task_dto_of ?ts, bdto_statistics = bst\<rparr> # rest"
    by (auto simp: Let_def branch_tasks_def split: sum.splits)
  have "\<And>t e. t \<in> set ?ts \<Longrightarrow> t_end_date t = Some e \<Longrightarrow> valid_datetime e \<and> tzinfo e = None"
    using count_tasks_naive[OF c assms(2)] end_dates_validD[OF assms(3)] by blast
  with bs have bst: "bst = classified a ?ts"
    by (rule branch_statistics_fixed)
  from Cons.IH[OF l] count_tasks_fixed[OF c] show ?case
    by (simp add: d bst)
qed

lemma get_project_info_success:
  assumes "get_project_info s u pid clock = Inr r"
  obtains k where
    "branch_loop s clock 0
       \<lparr>taskCount = 0, completedTasksCount = 0, delayedTasksCount = 0, problemTasksCount = 0\<rparr>
       (project_branches s pid) =
     Inr (k, pt_statistics (pi_project r), pt_branches (pi_project r))"
  using assms unfolding get_project_info_def project_branches_def
  by (auto split: option.splits if_splits sum.splits)



lemma classified_sel:
  "taskCount (classified a ts) = length ts"
  "completedTasksCount (classified a ts) = length (filter t_done ts)"
  "delayedTasksCount (classified a ts) = length (filter (is_delayed a) ts)"
  "problemTasksCount (classified a ts) = length (filter t_has_problem ts)"
  by (simp_all add: classified_def)

text \<open>What a summary read against one instant holds: the statistics of each branch and
  the four counters of the project.\<close>

lemma summary_fixed:
  assumes "get_project_info s u pid (\<lambda>k. a) = Inr r"
    and "tzinfo a = None" and "end_dates_valid s"
  shows "map bdto_statistics (pt_branches (pi_project r)) =
           map (\<lambda>b. classified a (branch_tasks s b)) (project_branches s pid)"
    and "pt_statistics (pi_project r) =
           classified a (concat (map (branch_tasks s) (project_branches s pid)))"
proof -
  from assms(1) obtain k where
    l: "branch_loop s (\<lambda>k. a) 0
          \<lparr>taskCount = 0, completedTasksCount = 0, delayedTasksCount = 0,
           problemTasksCount = 0\<rparr>
          (project_branches s pid) =
        Inr (k, pt_statistics (pi_project r), pt_branches (pi_project r))"
    by (rule get_project_info_success)
  note f = branch_loop_fixed[OF l assms(2) assms(3)]
  from f show "map bdto_statistics (pt_branches (pi_project r)) =
           map (\<lambda>b. classified a (branch_tasks s b)) (project_branches s pid)"
    by simp
  from f show "pt_statistics (pi_project r) =
           classified a (concat (map (branch_tasks s) (project_branches s pid)))"
    by (intro statistics.equality) (simp_all add: classified_sel)
qed

lemma ex_valid:
  "tzinfo ex_now = None" "end_dates_valid ex_store" "valid_datetime ex_due" "tzinfo ex_due = None"
  by (simp_all add: ex_defs end_dates_valid_def valid_datetime_def days_in_month_def)

lemma ex_due_before_now: "datetime_lt ex_due ex_now = Some True"
  by (simp add: datetime_lt_def local_microseconds_def days_before_year_def
      days_before_month_def is_leap_def ex_due_def ex_now_def)

lemma ex_summary:
  "\<exists>r. get_project_info ex_store ex_alice 1 (\<lambda>k. ex_now) = Inr r"
proof -
  have a: "t_end_date ex_task = Some ex_due" "t_end_date ex_task2 = None"
    "t_done ex_task = False" "t_done ex_task2 = True"
    "t_has_problem ex_task = True" "t_has_problem ex_task2 = False"
    by (simp_all add: ex_task_def ex_task2_def)
  have b: "filter (\<lambda>t. t_branch_id t = Some (b_id ex_branch)) (tasks ex_store) =
             [ex_task, ex_task2]"
    by (simp add: ex_store_def ex_task_def ex_task2_def ex_branch_def)
  have c: "filter (\<lambda>b. b_project_id b = Some 1) (branches ex_store) = [ex_branch]"
    by (simp add: ex_store_def ex_branch_def)
  have d: "find (\<lambda>p. p_id p = 1) (projects ex_store) = Some ex_project"
    "in_members ex_alice (members ex_store (p_id ex_project))"
    by (simp_all add: ex_store_def ex_project_def ex_other_project_def ex_alice_def ex_bob_def
        auth_defs)
  show ?thesis
    by (simp add: get_project_info_def d c b a Let_def branch_statistics_def task_dto_of_sel
        isoformat_not_empty fromisoformat_isoformat ex_valid ex_due_before_now)
qed



text \<open>The premise of one instant is needed. The handler reads the clock at every
  comparison and counts the delayed tasks of the project and of a branch separately: when
  the end date of \<open>t1\<close> lies between two readings, the project has no delayed task and its
  branch has one.\<close>

lemma ex_due_after_created: "datetime_lt ex_due ex_created = Some False"
  by (simp add: datetime_lt_def local_microseconds_def days_before_year_def
      days_before_month_def is_leap_def ex_due_def ex_created_def)

lemma delayed_counters_read_clock_twice:
  "\<exists>r. get_project_info ex_store ex_alice 1 (\<lambda>k. if k = 0 then ex_created else ex_now) = Inr r \<and>
       delayedTasksCount (pt_statistics (pi_project r)) = 0 \<and>
       map (delayedTasksCount \<circ> bdto_statistics) (pt_branches (pi_project r)) = [1]"
proof -
  have a: "t_end_date ex_task = Some ex_due" "t_end_date ex_task2 = None"
    "t_done ex_task = False" "t_done ex_task2 = True"
    "t_has_problem ex_task = True" "t_has_problem ex_task2 = False"
    by (simp_all add: ex_task_def ex_task2_def)
  have b: "filter (\<lambda>t. t_branch_id t = Some (b_id ex_branch)) (tasks ex_store) =
             [ex_task, ex_task2]"
    by (simp add: ex_store_def ex_task_def ex_task2_def ex_branch_def)
  have c: "filter (\<lambda>b. b_project_id b = Some 1) (branches ex_store) = [ex_branch]"
    by (simp add: ex_store_def ex_branch_def)
  have d: "find (\<lambda>p. p_id p = 1) (projects ex_store) = Some ex_project"
    "in_members ex_alice (members ex_store (p_id ex_project))"
    by (simp_all add: ex_store_def ex_project_def ex_other_project_def ex_alice_def ex_bob_def
        auth_defs)
  show ?thesis
    by (simp add: get_project_info_def d c b a Let_def branch_statistics_def task_dto_of_sel
        isoformat_not_empty fromisoformat_isoformat ex_valid ex_due_before_now
        ex_due_after_created)
qed

text \<open>
  C3. In a summary read against one instant \<open>asOf\<close>, the statistics of every branch and
  the counters of the project are the classification of their tasks: a task is counted
  completed exactly when \<open>done\<close> is set, problem exactly when \<open>has_problem\<close> is set, and
  delayed exactly when it has an end date strictly before \<open>asOf\<close> and \<open>done\<close> is not set.
  The second part is the step of the handler's loop on one task: the three counters move
  independently, so a task with a problem and a past end date is counted in both.
\<close>

theorem summary_classifies_each_task:
  "(get_project_info s u pid (\<lambda>k. asOf) = Inr r \<and> tzinfo asOf = None \<and> end_dates_valid s \<longrightarrow>
      pt_statistics (pi_project r) =
        classified asOf (concat (map (branch_tasks s) (project_branches s pid))) \<and>
      map bdto_statistics (pt_branches (pi_project r)) =
        map (\<lambda>b. classified asOf (branch_tasks s b)) (project_branches s pid)) \<and>
   (count_tasks (\<lambda>k. asOf) k st [t] = Inr (k', st') \<longrightarrow>
      taskCount st' = taskCount st + 1 \<and>
      completedTasksCount st' = completedTasksCount st + (if t_done t then 1 else 0) \<and>
      problemTasksCount st' = problemTasksCount st + (if t_has_problem t then 1 else 0) \<and>
      delayedTasksCount st' =
        delayedTasksCount st +
        (if (\<exists>e. t_end_date t = Some e \<and> datetime_lt e asOf = Some True) \<and> \<not> t_done t
         then 1 else 0))"
proof (intro conjI impI)
  assume a: "get_project_info s u pid (\<lambda>k. asOf) = Inr r \<and> tzinfo asOf = None \<and>
             end_dates_valid s"
  then have g: "get_project_info s u pid (\<lambda>k. asOf) = Inr r" and n: "tzinfo asOf = None"
    and v: "end_dates_valid s"
    by simp_all
  show "pt_statistics (pi_project r) =
        classified asOf (concat (map (branch_tasks s) (project_branches s pid)))"
    using g n v by (rule summary_fixed(2))
  show "map bdto_statistics (pt_branches (pi_project r)) =
        map (\<lambda>b. classified asOf (branch_tasks s b)) (project_branches s pid)"
    using g n v by (rule summary_fixed(1))
next
  assume c: "count_tasks (\<lambda>k. asOf) k st [t] = Inr (k', st')"
  have d: "is_delayed asOf t =
             ((\<exists>e. t_end_date t = Some e \<and> datetime_lt e asOf = Some True) \<and> \<not> t_done t)"
    by (auto simp: is_delayed_def split: option.splits)
  note f = count_tasks_fixed[OF c]
  from f show "taskCount st' = taskCount st + 1" by simp
  from f show "completedTasksCount st' = completedTasksCount st + (if t_done t then 1 else 0)"
    by simp
  from f show "problemTasksCount st' = problemTasksCount st + (if t_has_problem t then 1 else 0)"
    by simp
  from f d show "delayedTasksCount st' =
        delayedTasksCount st +
        (if (\<exists>e. t_end_date t = Some e \<and> datetime_lt e asOf = Some True) \<and> \<not> t_done t
         then 1 else 0)"
    by simp
qed

text \<open>The witness: the summary of project 1 at \<open>ex_now\<close>. Task \<open>t1\<close> has a problem, is
  not done and was due a month before: it is the one problem task and the one delayed
  task of the summary. Task \<open>t2\<close> is done and is the one completed task.\<close>

lemma ex_classified:
  "classified ex_now (concat (map (branch_tasks ex_store) (project_branches ex_store 1))) =
     \<lparr>taskCount = 2, completedTasksCount = 1, delayedTasksCount = 1, problemTasksCount = 1\<rparr>"
  "map (\<lambda>b. classified ex_now (branch_tasks ex_store b)) (project_branches ex_store 1) =
     [\<lparr>taskCount = 2, completedTasksCount = 1, delayedTasksCount = 1, problemTasksCount = 1\<rparr>]"
proof -
  have a: "project_branches ex_store 1 = [ex_branch]"
    by (simp add: project_branches_def ex_store_def ex_branch_def)
  have b: "branch_tasks ex_store ex_branch = [ex_task, ex_task2]"
    by (simp add: branch_tasks_def ex_store_def ex_task_def ex_task2_def ex_branch_def)
  have c: "t_end_date ex_task = Some ex_due" "t_end_date ex_task2 = None"
    "t_done ex_task = False" "t_done ex_task2 = True"
    "t_has_problem ex_task = True" "t_has_problem ex_task2 = False"
    by (simp_all add: ex_task_def ex_task2_def)
  show "classified ex_now (concat (map (branch_tasks ex_store) (project_branches ex_store 1))) =
     \<lparr>taskCount = 2, completedTasksCount = 1, delayedTasksCount = 1, problemTasksCount = 1\<rparr>"
    by (simp add: a b c classified_def is_delayed_def ex_due_before_now)
  show "map (\<lambda>b. classified ex_now (branch_tasks ex_store b)) (project_branches ex_store 1) =
     [\<lparr>taskCount = 2, completedTasksCount = 1, delayedTasksCount = 1, problemTasksCount = 1\<rparr>]"
    by (simp add: a b c classified_def is_delayed_def ex_due_before_now)
qed

lemma ex_count_task:
  "count_tasks (\<lambda>k. ex_now) 0
     \<lparr>taskCount = 0, completedTasksCount = 0, delayedTasksCount = 0, problemTasksCount = 0\<rparr>
     [ex_task] =
   Inr (1, \<lparr>taskCount = 1, completedTasksCount = 0, delayedTasksCount = 1,
            problemTasksCount = 1\<rparr>)"
proof -
  have c: "t_end_date ex_task = Some ex_due" "t_done ex_task = False"
    "t_has_problem ex_task = True"
    by (simp_all add: ex_task_def)
  show ?thesis
    by (simp add: c Let_def ex_due_before_now)
qed

theorem summary_classifies_each_task_witness:
  "(\<exists>r. get_project_info ex_store ex_alice 1 (\<lambda>k. ex_now) = Inr r \<and>
        tzinfo ex_now = None \<and> end_dates_valid ex_store \<and>
        pt_statistics (pi_project r) =
          \<lparr>taskCount = 2, completedTasksCount = 1, delayedTasksCount = 1,
           problemTasksCount = 1\<rparr> \<and>
        map bdto_statistics (pt_branches (pi_project r)) =
          [\<lparr>taskCount = 2, completedTasksCount = 1, delayedTasksCount = 1,
            problemTasksCount = 1\<rparr>]) \<and>
   t_has_problem ex_task \<and> \<not> t_done ex_task \<and> t_end_date ex_task = Some ex_due \<and>
   datetime_lt ex_due ex_now = Some True \<and>
   (\<exists>k' st'. count_tasks (\<lambda>k. ex_now) 0
       \<lparr>taskCount = 0, completedTasksCount = 0, delayedTasksCount = 0,
        problemTasksCount = 0\<rparr> [ex_task] = Inr (k', st') \<and>
      completedTasksCount st' = 0 \<and> problemTasksCount st' = 1 \<and> delayedTasksCount st' = 1)"
proof -
  from ex_summary obtain r where r: "get_project_info ex_store ex_alice 1 (\<lambda>k. ex_now) = Inr r"
    by blast
  note h = summary_classifies_each_task
             [where s = ex_store and u = ex_alice and pid = 1 and asOf = ex_now and r = r,
              THEN conjunct1, rule_format, unfolded ex_classified]
  have first: "\<exists>r. get_project_info ex_store ex_alice 1 (\<lambda>k. ex_now) = Inr r \<and>
        tzinfo ex_now = None \<and> end_dates_valid ex_store \<and>
        pt_statistics (pi_project r) =
          \<lparr>taskCount = 2, completedTasksCount = 1, delayedTasksCount = 1,
           problemTasksCount = 1\<rparr> \<and>
        map bdto_statistics (pt_branches (pi_project r)) =
          [\<lparr>taskCount = 2, completedTasksCount = 1, delayedTasksCount = 1,
            problemTasksCount = 1\<rparr>]"
  proof -
    note hh = h[OF conjI[OF r conjI[OF ex_valid(1) ex_valid(2)]]]
    show ?thesis
      by (intro exI[of _ r] conjI r ex_valid(1) ex_valid(2) hh[THEN conjunct1]
          hh[THEN conjunct2])
  qed
  have c: "t_has_problem ex_task" "\<not> t_done ex_task" "t_end_date ex_task = Some ex_due"
    by (simp_all add: ex_task_def)
  note g = summary_classifies_each_task
             [where asOf = ex_now and t = ex_task, THEN conjunct2, rule_format, OF ex_count_task]
  have "completedTasksCount
          \<lparr>taskCount = 1, completedTasksCount = 0, delayedTasksCount = 1,
           problemTasksCount = 1\<rparr> = 0 \<and>
        problemTasksCount
          \<lparr>taskCount = 1, completedTasksCount = 0, delayedTasksCount = 1,
           problemTasksCount = 1\<rparr> = 1 \<and>
        delayedTasksCount
          \<lparr>taskCount = 1, completedTasksCount = 0, delayedTasksCount = 1,
           problemTasksCount = 1\<rparr> = 1"
    using g c ex_due_before_now by simp
  with ex_count_task have third: "\<exists>k' st'. count_tasks (\<lambda>k. ex_now) 0
       \<lparr>taskCount = 0, completedTasksCount = 0, delayedTasksCount = 0,
        problemTasksCount = 0\<rparr> [ex_task] = Inr (k', st') \<and>
      completedTasksCount st' = 0 \<and> problemTasksCount st' = 1 \<and> delayedTasksCount st' = 1"
    by blast
  show ?thesis
    by (intro conjI first c ex_due_before_now third)
qed

end
